theory Spec2Isabelle
  imports Complex_Main "HOL-Library.AList" "HOL-Library.Sublist"
begin

section \<open>JavaScript strings and the path module\<close>

text \<open>
  Source strings are modelled as HOL strings: a character of the model is a UTF-16 code
  unit below 256, that is a character of ASCII or Latin-1, and a string with any other
  code unit is outside the model. On these characters the case folding, the white space
  and the word characters below are those of JavaScript. The POSIX flavour of Node's
  \<^verbatim>\<open>path\<close> module is modelled.
\<close>

text \<open>
  \<^verbatim>\<open>toLowerCase\<close> on one character: the letters A to Z and the Latin-1 capitals
  U+00C0 to U+00DE, the multiplication sign U+00D7 apart, move up by 32.
\<close>

definition upperChars :: "char list" where
  "upperChars =
     ''ABCDEFGHIJKLMNOPQRSTUVWXYZ'' @
     [CHR 0xC0, CHR 0xC1, CHR 0xC2, CHR 0xC3, CHR 0xC4, CHR 0xC5, CHR 0xC6, CHR 0xC7,
      CHR 0xC8, CHR 0xC9, CHR 0xCA, CHR 0xCB, CHR 0xCC, CHR 0xCD, CHR 0xCE, CHR 0xCF,
      CHR 0xD0, CHR 0xD1, CHR 0xD2, CHR 0xD3, CHR 0xD4, CHR 0xD5, CHR 0xD6,
      CHR 0xD8, CHR 0xD9, CHR 0xDA, CHR 0xDB, CHR 0xDC, CHR 0xDD, CHR 0xDE]"

definition lowerChars :: "char list" where
  "lowerChars =
     ''abcdefghijklmnopqrstuvwxyz'' @
     [CHR 0xE0, CHR 0xE1, CHR 0xE2, CHR 0xE3, CHR 0xE4, CHR 0xE5, CHR 0xE6, CHR 0xE7,
      CHR 0xE8, CHR 0xE9, CHR 0xEA, CHR 0xEB, CHR 0xEC, CHR 0xED, CHR 0xEE, CHR 0xEF,
      CHR 0xF0, CHR 0xF1, CHR 0xF2, CHR 0xF3, CHR 0xF4, CHR 0xF5, CHR 0xF6,
      CHR 0xF8, CHR 0xF9, CHR 0xFA, CHR 0xFB, CHR 0xFC, CHR 0xFD, CHR 0xFE]"

definition lower_char :: "char \<Rightarrow> char" where
  "lower_char c =
     (case map_of (zip upperChars lowerChars) c of
        Some l \<Rightarrow> l
      | None \<Rightarrow> c)"

definition toLowerCase :: "string \<Rightarrow> string" where
  "toLowerCase s = map lower_char s"

text \<open>\<^verbatim>\<open>s.startsWith(t)\<close>\<close>

fun startsWith :: "string \<Rightarrow> string \<Rightarrow> bool" where
  "startsWith s [] = True"
| "startsWith [] (y # ys) = False"
| "startsWith (x # xs) (y # ys) = (x = y \<and> startsWith xs ys)"

text \<open>\<^verbatim>\<open>s.includes(t)\<close>: \<open>t\<close> occurs in \<open>s\<close> as a contiguous substring.\<close>

fun str_includes :: "string \<Rightarrow> string \<Rightarrow> bool" where
  "str_includes [] t = (t = [])"
| "str_includes (x # xs) t = (startsWith (x # xs) t \<or> str_includes xs t)"

text \<open>\<^verbatim>\<open>path.basename(p)\<close>: the last component, trailing separators ignored.\<close>

definition basename :: "string \<Rightarrow> string" where
  "basename p = rev (takeWhile (\<lambda>c. c \<noteq> CHR ''/'') (dropWhile (\<lambda>c. c = CHR ''/'') (rev p)))"

text \<open>
  \<^verbatim>\<open>path.extname(p)\<close>: from the last dot of the last component to its end; empty when
  there is no dot, when the only dot is the component's first character, or when the
  component is \<^verbatim>\<open>..\<close>.
\<close>

definition extname :: "string \<Rightarrow> string" where
  "extname p =
     (let base = basename p; r = rev base;
          ext = rev (takeWhile (\<lambda>c. c \<noteq> CHR ''.'') r);
          pre = rev (drop 1 (dropWhile (\<lambda>c. c \<noteq> CHR ''.'') r))
      in if CHR ''.'' \<notin> set base then []
         else if pre = [] then []
         else if base = ''..'' then []
         else CHR ''.'' # ext)"

text \<open>
  \<^verbatim>\<open>path.dirname(p)\<close>: scanning from the end down to index 1, trailing separators and
  then the last component are skipped; the path up to the separator found there is
  returned.
\<close>

fun dirname_scan :: "string \<Rightarrow> bool \<Rightarrow> string option" where
  "dirname_scan [] matchedSlash = None"
| "dirname_scan (c # r) matchedSlash =
     (if r = [] then None
      else if c = CHR ''/'' then
        (if \<not> matchedSlash then Some (rev r) else dirname_scan r matchedSlash)
      else dirname_scan r False)"

definition dirname :: "string \<Rightarrow> string" where
  "dirname p =
     (if p = [] then ''.''
      else let hasRoot = (hd p = CHR ''/'') in
        (case dirname_scan (rev p) True of
           None \<Rightarrow> (if hasRoot then ''/'' else ''.'')
         | Some d \<Rightarrow> (if hasRoot \<and> length d = 1 then ''//'' else d)))"

section \<open>Turbo edits: complexity tiers and strategies\<close>

datatype EditComplexity = SIMPLE | MODERATE | COMPLEX | MULTI_FILE

text \<open>The ordinal position of a tier: SIMPLE < MODERATE < COMPLEX < MULTI_FILE.\<close>

fun tier :: "EditComplexity \<Rightarrow> nat" where
  "tier SIMPLE = 0"
| "tier MODERATE = 1"
| "tier COMPLEX = 2"
| "tier MULTI_FILE = 3"

datatype ModelSelection = Fast | Balanced | Powerful

datatype ValidationLevel = Basic | Enhanced | Strict

datatype ModelStrategy = PrefFast | PrefBalanced | PrefQuality

datatype ComplexityThreshold = ThresholdSimple | ThresholdModerate | ThresholdAll

record RetryPolicy =
  maxAttempts :: nat
  backoffMultiplier :: rat
  initialDelay :: nat

record EditStrategy =
  modelSelection :: ModelSelection
  promptTemplate :: string
  maxTokens :: nat
  validationLevel :: ValidationLevel
  retryPolicy :: RetryPolicy

record TurboEditsConfig =
  complexityThreshold :: ComplexityThreshold
  modelStrategy :: ModelStrategy
  enableValidation :: bool
  maxRetries :: nat

text \<open>
  The strategy cache is keyed by the string
  \<^verbatim>\<open>`${complexity}:${modelStrategy}:${extname}`\<close>; the first two parts contain no colon, so
  the key determines the triple and the triple is used as the key.
\<close>

type_synonym StrategyKey = "EditComplexity \<times> ModelStrategy \<times> string"

type_synonym StrategyCache = "(StrategyKey \<times> EditStrategy) list"

text \<open>The \<^verbatim>\<open>switch\<close> of \<^verbatim>\<open>selectOptimalStrategy\<close>, run on a cache miss.\<close>

fun strategyForComplexity :: "TurboEditsConfig \<Rightarrow> EditComplexity \<Rightarrow> EditStrategy" where
  "strategyForComplexity cfg SIMPLE =
     \<lparr> modelSelection = (if modelStrategy cfg = PrefQuality then Balanced else Fast),
       promptTemplate = [],
       maxTokens = 2000,
       validationLevel = Basic,
       retryPolicy = \<lparr> maxAttempts = 2, backoffMultiplier = 3 / 2, initialDelay = 1000 \<rparr> \<rparr>"
| "strategyForComplexity cfg MODERATE =
     \<lparr> modelSelection =
         (if modelStrategy cfg = PrefFast then Balanced
          else if modelStrategy cfg = PrefQuality then Powerful else Balanced),
       promptTemplate = [],
       maxTokens = 4000,
       validationLevel = Enhanced,
       retryPolicy = \<lparr> maxAttempts = 3, backoffMultiplier = 2, initialDelay = 1500 \<rparr> \<rparr>"
| "strategyForComplexity cfg COMPLEX =
     \<lparr> modelSelection = (if modelStrategy cfg = PrefFast then Balanced else Powerful),
       promptTemplate = [],
       maxTokens = 8000,
       validationLevel = Strict,
       retryPolicy = \<lparr> maxAttempts = 3, backoffMultiplier = 5 / 2, initialDelay = 2000 \<rparr> \<rparr>"
| "strategyForComplexity cfg MULTI_FILE =
     \<lparr> modelSelection = Powerful,
       promptTemplate = [],
       maxTokens = 12000,
       validationLevel = Strict,
       retryPolicy = \<lparr> maxAttempts = 4, backoffMultiplier = 3, initialDelay = 3000 \<rparr> \<rparr>"

text \<open>
  \<^verbatim>\<open>selectOptimalStrategy\<close>: a cached strategy is returned as it is; otherwise the
  strategy is computed and stored. Only the complexity of the analysis is read.
\<close>

definition selectOptimalStrategy ::
  "TurboEditsConfig \<Rightarrow> StrategyCache \<Rightarrow> EditComplexity \<Rightarrow> string \<Rightarrow> EditStrategy \<times> StrategyCache" where
  "selectOptimalStrategy cfg cache complexity filePath =
     (let cacheKey = (complexity, modelStrategy cfg, extname filePath) in
      case map_of cache cacheKey of
        Some cached \<Rightarrow> (cached, cache)
      | None \<Rightarrow>
          (let strategy = strategyForComplexity cfg complexity
           in (strategy, AList.update cacheKey strategy cache)))"

text \<open>
  The caches are private, empty at construction, and written by
  \<^verbatim>\<open>selectOptimalStrategy\<close> only, under a configuration that never changes: every
  entry is the strategy computed for its key.
\<close>

definition strategyCacheOk :: "TurboEditsConfig \<Rightarrow> StrategyCache \<Rightarrow> bool" where
  "strategyCacheOk cfg cache =
     list_all (\<lambda>((c, m, e), s). m = modelStrategy cfg \<longrightarrow> s = strategyForComplexity cfg c) cache"

section \<open>Turbo edits: complexity analysis\<close>

text \<open>
  The evidence strings collected in \<^verbatim>\<open>reasoning\<close> are fixed Portuguese sentences; each is
  represented by a constructor, the keyword one with the level name and the matched
  keywords it interpolates.
\<close>

datatype Reason =
    KeywordsDetected string "string list"
  | LargeFile
  | ManyLines
  | ComponentFile
  | StructuralReferences
  | LongPrompt
  | FewEvidence

record EditAnalysis =
  complexity :: EditComplexity
  confidence :: rat
  estimatedTokens :: nat
  suggestedStrategy :: EditStrategy
  reasoning :: "Reason list"

text \<open>The local variables of \<^verbatim>\<open>performComplexityAnalysis\<close>.\<close>

record AnalysisVars =
  v_complexity :: EditComplexity
  v_confidence :: rat
  v_estimatedTokens :: nat
  v_reasoning :: "Reason list"

definition complexityKeywords :: "(string \<times> string list) list" where
  "complexityKeywords =
     [(''simple'', [''fix'', ''correct'', ''typo'', ''update'', ''change text'', ''rename'']),
      (''moderate'', [''refactor'', ''optimize'', ''restructure'', ''add function'', ''modify logic'']),
      (''complex'', [''architecture'', ''design pattern'', ''framework'', ''migrate'', ''rewrite'']),
      (''multiFile'', [''multiple files'', ''across files'', ''project-wide'', ''global change''])]"

text \<open>One iteration of the loop over \<^verbatim>\<open>Object.entries(complexityKeywords)\<close>.\<close>

definition keywordStep :: "string \<Rightarrow> AnalysisVars \<Rightarrow> string \<times> string list \<Rightarrow> AnalysisVars" where
  "keywordStep normalizedPrompt v entry =
     (let level = fst entry;
          matches = filter (\<lambda>keyword. str_includes normalizedPrompt keyword) (snd entry)
      in if length matches > 0 then
           (let v1 = v\<lparr> v_reasoning := v_reasoning v @ [KeywordsDetected level matches] \<rparr>
            in if level = ''simple'' then
                 (if v_complexity v1 = SIMPLE
                  then v1\<lparr> v_confidence := v_confidence v1 + 1 / 10 \<rparr> else v1)
               else if level = ''moderate'' then
                 v1\<lparr> v_complexity := MODERATE, v_confidence := 7 / 10, v_estimatedTokens := 2000 \<rparr>
               else if level = ''complex'' then
                 v1\<lparr> v_complexity := COMPLEX, v_confidence := 6 / 10, v_estimatedTokens := 4000 \<rparr>
               else if level = ''multiFile'' then
                 v1\<lparr> v_complexity := MULTI_FILE, v_confidence := 9 / 10, v_estimatedTokens := 8000 \<rparr>
               else v1)
         else v)"

definition keywordLoop :: "string \<Rightarrow> AnalysisVars \<Rightarrow> AnalysisVars" where
  "keywordLoop normalizedPrompt v = foldl (keywordStep normalizedPrompt) v complexityKeywords"

text \<open>
  The five structural patterns, each tested anywhere in the prompt:
  \<^verbatim>\<open>/class\s+\w+/i\<close>, \<^verbatim>\<open>/interface\s+\w+/i\<close>, \<^verbatim>\<open>/function\s+\w+/i\<close>,
  \<^verbatim>\<open>/import.*from/i\<close> and \<^verbatim>\<open>/export.*{/i\<close>.
\<close>

text \<open>
  The white space of JavaScript, which \<^verbatim>\<open>\s\<close> matches and \<^verbatim>\<open>trim\<close> strips: space,
  tab, line feed, vertical tab, form feed, carriage return and the no-break space U+00A0.
\<close>

definition isSpace :: "char \<Rightarrow> bool" where
  "isSpace c =
     (c \<in> set [CHR '' '', CHR 0x09, CHR 0x0A, CHR 0x0B, CHR 0x0C, CHR 0x0D, CHR 0xA0])"

definition isWordChar :: "char \<Rightarrow> bool" where
  "isWordChar c =
     (c \<in> set ''abcdefghijklmnopqrstuvwxyzABCDEFGHIJKLMNOPQRSTUVWXYZ0123456789_'')"

text \<open>The dot of a regular expression matches everything but a line terminator.\<close>

definition isDotChar :: "char \<Rightarrow> bool" where
  "isDotChar c = (c \<noteq> CHR 0x0A \<and> c \<noteq> CHR 0x0D)"

text \<open>A pattern without anchors matches when it matches at the start of some suffix.\<close>

fun matchesSomewhere :: "(string \<Rightarrow> bool) \<Rightarrow> string \<Rightarrow> bool" where
  "matchesSomewhere P [] = P []"
| "matchesSomewhere P (c # cs) = (P (c # cs) \<or> matchesSomewhere P cs)"

text \<open>\<^verbatim>\<open>kw\s+\w+\<close> at the start of \<open>s\<close>, letters of \<open>kw\<close> in either case.\<close>

definition keywordSpaceWordAt :: "string \<Rightarrow> string \<Rightarrow> bool" where
  "keywordSpaceWordAt kw s =
     (startsWith (toLowerCase s) kw \<and>
      (let r = drop (length kw) s
       in takeWhile isSpace r \<noteq> [] \<and>
          (case dropWhile isSpace r of [] \<Rightarrow> False | w # _ \<Rightarrow> isWordChar w)))"

text \<open>\<^verbatim>\<open>kw.*lit\<close> at the start of \<open>s\<close>: \<open>lit\<close> occurs later on the same line.\<close>

definition keywordDotStarAt :: "string \<Rightarrow> string \<Rightarrow> string \<Rightarrow> bool" where
  "keywordDotStarAt kw lit s =
     (startsWith (toLowerCase s) kw \<and>
      str_includes (toLowerCase (takeWhile isDotChar (drop (length kw) s))) lit)"

definition structuralPatterns :: "(string \<Rightarrow> bool) list" where
  "structuralPatterns =
     [matchesSomewhere (keywordSpaceWordAt ''class''),
      matchesSomewhere (keywordSpaceWordAt ''interface''),
      matchesSomewhere (keywordSpaceWordAt ''function''),
      matchesSomewhere (keywordDotStarAt ''import'' ''from''),
      matchesSomewhere (keywordDotStarAt ''export'' ''{'')]"

text \<open>\<^verbatim>\<open>fileContent.split("\n").length\<close>\<close>

definition lineCount :: "string \<Rightarrow> nat" where
  "lineCount s = Suc (length (filter (\<lambda>c. c = CHR 0x0A) s))"

definition complexFileTypes :: "string list" where
  "complexFileTypes = [''.tsx'', ''.jsx'', ''.vue'', ''.svelte'']"

definition fileSizeStep :: "nat \<Rightarrow> AnalysisVars \<Rightarrow> AnalysisVars" where
  "fileSizeStep fileSize v =
     (if fileSize > 50000 then
        (let v1 = v\<lparr> v_reasoning := v_reasoning v @ [LargeFile] \<rparr>;
             v2 = (if v_complexity v1 = SIMPLE then v1\<lparr> v_complexity := MODERATE \<rparr> else v1)
         in v2\<lparr> v_estimatedTokens := v_estimatedTokens v2 + 1000 \<rparr>)
      else v)"

definition lineCountStep :: "nat \<Rightarrow> AnalysisVars \<Rightarrow> AnalysisVars" where
  "lineCountStep lines v =
     (if lines > 1000 then
        v\<lparr> v_reasoning := v_reasoning v @ [ManyLines],
           v_estimatedTokens := v_estimatedTokens v + 500 \<rparr>
      else v)"

definition fileTypeStep :: "string \<Rightarrow> AnalysisVars \<Rightarrow> AnalysisVars" where
  "fileTypeStep fileExtension v =
     (if fileExtension \<in> set complexFileTypes then
        (let v1 = v\<lparr> v_reasoning := v_reasoning v @ [ComponentFile] \<rparr>
         in if v_complexity v1 = SIMPLE then v1\<lparr> v_complexity := MODERATE \<rparr> else v1)
      else v)"

definition structuralStep :: "string \<Rightarrow> AnalysisVars \<Rightarrow> AnalysisVars" where
  "structuralStep prompt v =
     (let structuralMatches = filter (\<lambda>pattern. pattern prompt) structuralPatterns
      in if length structuralMatches > 2 then
           (let v1 = v\<lparr> v_reasoning := v_reasoning v @ [StructuralReferences] \<rparr>
            in if v_complexity v1 = SIMPLE then v1\<lparr> v_complexity := MODERATE \<rparr> else v1)
         else v)"

definition promptLengthStep :: "string \<Rightarrow> AnalysisVars \<Rightarrow> AnalysisVars" where
  "promptLengthStep prompt v =
     (if length prompt > 500 then
        v\<lparr> v_reasoning := v_reasoning v @ [LongPrompt],
           v_estimatedTokens := v_estimatedTokens v + length prompt div 2 \<rparr>
      else v)"

definition evidenceStep :: "AnalysisVars \<Rightarrow> AnalysisVars" where
  "evidenceStep v =
     (if length (v_reasoning v) < 2 then
        v\<lparr> v_confidence := v_confidence v - 2 / 10,
           v_reasoning := v_reasoning v @ [FewEvidence] \<rparr>
      else v)"

text \<open>
  \<^verbatim>\<open>performComplexityAnalysis\<close>. The strategy cache is threaded through the call of
  \<^verbatim>\<open>selectOptimalStrategy\<close>.
\<close>

definition performComplexityAnalysis ::
  "TurboEditsConfig \<Rightarrow> StrategyCache \<Rightarrow> string \<Rightarrow> string \<Rightarrow> string
     \<Rightarrow> EditAnalysis \<times> StrategyCache" where
  "performComplexityAnalysis cfg cache prompt filePath fileContent =
     (let v0 = \<lparr> v_complexity = SIMPLE, v_confidence = 8 / 10, v_estimatedTokens = 1000,
                 v_reasoning = [] \<rparr>;
          normalizedPrompt = toLowerCase prompt;
          fileExtension = extname filePath;
          fileSize = length fileContent;
          lines = lineCount fileContent;
          v1 = keywordLoop normalizedPrompt v0;
          v2 = fileSizeStep fileSize v1;
          v3 = lineCountStep lines v2;
          v4 = fileTypeStep fileExtension v3;
          v5 = structuralStep prompt v4;
          v6 = promptLengthStep prompt v5;
          v7 = evidenceStep v6;
          (strategy, cache') = selectOptimalStrategy cfg cache (v_complexity v7) filePath
      in (\<lparr> complexity = v_complexity v7,
            confidence = max (1 / 10) (min 1 (v_confidence v7)),
            estimatedTokens = v_estimatedTokens v7,
            suggestedStrategy = strategy,
            reasoning = v_reasoning v7 \<rparr>, cache'))"

text \<open>Decimal rendering of a length, as string interpolation prints it.\<close>

function showNat :: "nat \<Rightarrow> string" where
  "showNat n =
     (if n < 10 then [''0123456789'' ! n]
      else showNat (n div 10) @ [''0123456789'' ! (n mod 10)])"
  by pat_completeness auto
termination
  by (relation "measure (\<lambda>n. n)") auto

text \<open>The two private caches of a \<^verbatim>\<open>TurboEditsProcessor\<close>.\<close>

record TurboState =
  complexityAnalysisCache :: "(string \<times> EditAnalysis) list"
  strategyCache :: StrategyCache

definition newTurboState :: TurboState where
  "newTurboState = \<lparr> complexityAnalysisCache = [], strategyCache = [] \<rparr>"

text \<open>\<^verbatim>\<open>estimateEditComplexity\<close>: the analysis, cached under prompt, path and content length.\<close>

definition estimateEditComplexity ::
  "TurboEditsConfig \<Rightarrow> TurboState \<Rightarrow> string \<Rightarrow> string \<Rightarrow> string
     \<Rightarrow> EditAnalysis \<times> TurboState" where
  "estimateEditComplexity cfg st prompt filePath fileContent =
     (let cacheKey = prompt @ '':'' @ filePath @ '':'' @ showNat (length fileContent) in
      case map_of (complexityAnalysisCache st) cacheKey of
        Some cached \<Rightarrow> (cached, st)
      | None \<Rightarrow>
          (let (analysis, sc) =
                 performComplexityAnalysis cfg (strategyCache st) prompt filePath fileContent
           in (analysis,
               \<lparr> complexityAnalysisCache =
                   AList.update cacheKey analysis (complexityAnalysisCache st),
                 strategyCache = sc \<rparr>)))"

text \<open>\<^verbatim>\<open>shouldUseTurboEdits\<close>\<close>

fun shouldUseTurboEdits :: "TurboEditsConfig \<Rightarrow> EditComplexity \<Rightarrow> bool" where
  "shouldUseTurboEdits cfg c =
     (case complexityThreshold cfg of
        ThresholdSimple \<Rightarrow> True
      | ThresholdModerate \<Rightarrow> c \<noteq> SIMPLE
      | ThresholdAll \<Rightarrow> (c = COMPLEX \<or> c = MULTI_FILE))"

section \<open>Turbo edits: the optimized edit\<close>

datatype EditType = SYNTAX_FIX | ADD_FEATURE | REFACTOR | OPTIMIZE

text \<open>\<^verbatim>\<open>determineEditType\<close>\<close>

definition determineEditType :: "string \<Rightarrow> string \<Rightarrow> EditType" where
  "determineEditType prompt fileExtension =
     (let normalizedPrompt = toLowerCase prompt in
      if str_includes normalizedPrompt ''fix'' \<or> str_includes normalizedPrompt ''correct'' \<or>
         str_includes normalizedPrompt ''error'' then SYNTAX_FIX
      else if str_includes normalizedPrompt ''add'' \<or> str_includes normalizedPrompt ''create'' \<or>
         str_includes normalizedPrompt ''implement'' then ADD_FEATURE
      else if str_includes normalizedPrompt ''refactor'' \<or>
         str_includes normalizedPrompt ''restructure'' \<or>
         str_includes normalizedPrompt ''optimize'' then REFACTOR
      else if str_includes normalizedPrompt ''optimize'' \<or>
         str_includes normalizedPrompt ''performance'' \<or>
         str_includes normalizedPrompt ''improve'' then OPTIMIZE
      else if fileExtension \<in> set [''.ts'', ''.tsx'', ''.js'', ''.jsx''] then ADD_FEATURE
      else SYNTAX_FIX)"

text \<open>
  \<^verbatim>\<open>s.replace(pattern, replacement)\<close> with a string pattern: the first occurrence is
  replaced, and in the replacement \<^verbatim>\<open>$$\<close>, \<^verbatim>\<open>$&\<close>, \<^verbatim>\<open>$`\<close> and \<^verbatim>\<open>$'\<close> stand for a dollar
  sign, the match, the text before it and the text after it.
\<close>

fun findFirst :: "string \<Rightarrow> string \<Rightarrow> (string \<times> string) option" where
  "findFirst [] pat = (if pat = [] then Some ([], []) else None)"
| "findFirst (c # cs) pat =
     (if startsWith (c # cs) pat then Some ([], drop (length pat) (c # cs))
      else map_option (\<lambda>(pre, post). (c # pre, post)) (findFirst cs pat))"

fun expandReplacement :: "string \<Rightarrow> string \<Rightarrow> string \<Rightarrow> string \<Rightarrow> string" where
  "expandReplacement [] m pre post = []"
| "expandReplacement [c] m pre post = [c]"
| "expandReplacement (c # d # r) m pre post =
     (if c = CHR ''$'' \<and> d = CHR ''$'' then CHR ''$'' # expandReplacement r m pre post
      else if c = CHR ''$'' \<and> d = CHR ''&'' then m @ expandReplacement r m pre post
      else if c = CHR ''$'' \<and> d = CHR 0x60 then pre @ expandReplacement r m pre post
      else if c = CHR ''$'' \<and> d = CHR 0x27 then post @ expandReplacement r m pre post
      else c # expandReplacement (d # r) m pre post)"

definition replace :: "string \<Rightarrow> string \<Rightarrow> string \<Rightarrow> string" where
  "replace s pat rep =
     (case findFirst s pat of
        None \<Rightarrow> s
      | Some (pre, post) \<Rightarrow> pre @ expandReplacement rep pat pre post @ post)"

text \<open>\<^verbatim>\<open>xs.join(sep)\<close>\<close>

fun join :: "string list \<Rightarrow> string \<Rightarrow> string" where
  "join [] sep = []"
| "join [x] sep = x"
| "join (x # y # ys) sep = x @ sep @ join (y # ys) sep"

fun showValidationLevel :: "ValidationLevel \<Rightarrow> string" where
  "showValidationLevel Basic = ''basic''"
| "showValidationLevel Enhanced = ''enhanced''"
| "showValidationLevel Strict = ''strict''"

text \<open>
  \<^verbatim>\<open>generateOptimizedPrompt\<close>. The table \<^verbatim>\<open>EDIT_TEMPLATES\<close> has an entry for every edit
  type and model, so \<^verbatim>\<open>getEditTemplate\<close> always finds one; its template texts are the
  parameter \<open>templates\<close>.
\<close>

definition generateOptimizedPrompt ::
  "(EditType \<Rightarrow> ModelSelection \<Rightarrow> string) \<Rightarrow> string \<Rightarrow> string \<Rightarrow> string \<Rightarrow> EditStrategy
     \<Rightarrow> string list option \<Rightarrow> string" where
  "generateOptimizedPrompt templates originalPrompt filePath fileContent strategy context =
     (let fileExtension = extname filePath;
          fileName = basename filePath;
          editType = determineEditType originalPrompt fileExtension;
          template = templates editType (modelSelection strategy);
          contextSection =
            (case context of
               None \<Rightarrow> []
             | Some ctx \<Rightarrow>
                 (if length ctx > 0
                  then [CHR 0x0A, CHR 0x0A] @ ''Contexto adicional:'' @ [CHR 0x0A] @
                       join ctx [CHR 0x0A] @ [CHR 0x0A]
                  else []));
          t1 = replace template ''{{ORIGINAL_PROMPT}}'' originalPrompt;
          t2 = replace t1 ''{{FILE_NAME}}'' fileName;
          t3 = replace t2 ''{{FILE_EXTENSION}}'' fileExtension;
          t4 = replace t3 ''{{FILE_CONTENT}}'' fileContent;
          t5 = replace t4 ''{{CONTEXT}}'' contextSection;
          t6 = replace t5 ''{{MAX_TOKENS}}'' (showNat (maxTokens strategy))
      in replace t6 ''{{VALIDATION_LEVEL}}'' (showValidationLevel (validationLevel strategy)))"

text \<open>
  The validation rules, processing hints and output format are Portuguese sentences;
  each sentence is a constructor, with the values it interpolates.
\<close>

datatype RuleText =
    KeepSyntaxValid
  | PreserveFunctionality
  | CheckImportsExports
  | KeepStyleConsistent
  | CheckTypeScriptTypes
  | RunLinting
  | CheckBreakingChanges
  | ValidateRelatedTests

definition getValidationRuleTexts :: "ValidationLevel \<Rightarrow> string \<Rightarrow> RuleText list" where
  "getValidationRuleTexts level filePath =
     (let fileExtension = extname filePath;
          rules0 = [KeepSyntaxValid, PreserveFunctionality];
          rules1 =
            (if level = Enhanced \<or> level = Strict then
               rules0 @ [CheckImportsExports, KeepStyleConsistent] @
               (if fileExtension \<in> set [''.ts'', ''.tsx''] then [CheckTypeScriptTypes] else [])
             else rules0)
      in if level = Strict
         then rules1 @ [RunLinting, CheckBreakingChanges, ValidateRelatedTests]
         else rules1)"

datatype Hint =
    HintComplexity EditComplexity int
  | HintModel ModelSelection
  | HintTokens nat
  | HintSmallerEdits
  | HintStrictValidation

definition getProcessingHints :: "EditAnalysis \<Rightarrow> EditStrategy \<Rightarrow> Hint list" where
  "getProcessingHints analysis strategy =
     [HintComplexity (complexity analysis) \<lfloor>confidence analysis * 100 + 1 / 2\<rfloor>,
      HintModel (modelSelection strategy),
      HintTokens (estimatedTokens analysis)] @
     (if complexity analysis = COMPLEX \<or> complexity analysis = MULTI_FILE
      then [HintSmallerEdits] else []) @
     (if validationLevel strategy = Strict then [HintStrictValidation] else [])"

datatype FormatPart = CleanCode | WithTypeScriptTypes | WithComments

definition getExpectedOutputFormat :: "EditStrategy \<Rightarrow> string \<Rightarrow> FormatPart list" where
  "getExpectedOutputFormat strategy filePath =
     [CleanCode] @
     (if extname filePath \<in> set [''.ts'', ''.tsx''] then [WithTypeScriptTypes] else []) @
     (if validationLevel strategy = Strict then [WithComments] else [])"

record OptimizedEdit =
  strategy :: EditStrategy
  optimizedPrompt :: string
  expectedOutputFormat :: "FormatPart list"
  validationRules :: "RuleText list"
  processingHints :: "Hint list"

text \<open>The error thrown when the complexity is below the configured threshold.\<close>

datatype TurboError = BelowThreshold EditComplexity ComplexityThreshold

text \<open>
  \<^verbatim>\<open>generateOptimizedEdit\<close>: the \<^verbatim>\<open>catch\<close> logs and rethrows, so the error of the body is
  the error of the call; the caches keep what was stored before the throw.
\<close>

definition generateOptimizedEdit ::
  "(EditType \<Rightarrow> ModelSelection \<Rightarrow> string) \<Rightarrow> TurboEditsConfig \<Rightarrow> TurboState \<Rightarrow> string
     \<Rightarrow> string \<Rightarrow> string \<Rightarrow> string list option \<Rightarrow> (TurboError + OptimizedEdit) \<times> TurboState" where
  "generateOptimizedEdit templates cfg st prompt filePath fileContent context =
     (let (analysis, st1) = estimateEditComplexity cfg st prompt filePath fileContent in
      if \<not> shouldUseTurboEdits cfg (complexity analysis) then
        (Inl (BelowThreshold (complexity analysis) (complexityThreshold cfg)), st1)
      else
        (let (strat, sc) =
               selectOptimalStrategy cfg (strategyCache st1) (complexity analysis) filePath;
             st2 = st1\<lparr> strategyCache := sc \<rparr>;
             prompt' = generateOptimizedPrompt templates prompt filePath fileContent strat context;
             rules = getValidationRuleTexts (validationLevel strat) filePath;
             hints = getProcessingHints analysis strat
         in (Inr \<lparr> strategy = strat,
                   optimizedPrompt = prompt',
                   expectedOutputFormat = getExpectedOutputFormat strat filePath,
                   validationRules = rules,
                   processingHints = hints \<rparr>, st2)))"

text \<open>
  The threshold as a least accepted tier: \<open>simple\<close> accepts every tier, \<open>moderate\<close>
  every tier but SIMPLE, \<open>all\<close> the tiers COMPLEX and MULTI_FILE.
\<close>

fun leastAcceptedTier :: "ComplexityThreshold \<Rightarrow> nat" where
  "leastAcceptedTier ThresholdSimple = tier SIMPLE"
| "leastAcceptedTier ThresholdModerate = tier MODERATE"
| "leastAcceptedTier ThresholdAll = tier COMPLEX"

text \<open>
  Notions used to state the properties of the analysis: the tier a keyword level stands
  for, whether some keyword of a level occurs in the normalized prompt, the tier the
  keyword loop ends with, and the escalators that do not read the keyword levels.
\<close>

fun levelTier :: "string \<Rightarrow> nat" where
  "levelTier level =
     (if level = ''moderate'' then tier MODERATE
      else if level = ''complex'' then tier COMPLEX
      else if level = ''multiFile'' then tier MULTI_FILE
      else tier SIMPLE)"

definition levelMatches :: "string \<Rightarrow> string \<Rightarrow> bool" where
  "levelMatches normalizedPrompt level =
     (case map_of complexityKeywords level of
        None \<Rightarrow> False
      | Some keywords \<Rightarrow> \<exists>keyword \<in> set keywords. str_includes normalizedPrompt keyword)"

definition keywordComplexity :: "string \<Rightarrow> EditComplexity" where
  "keywordComplexity prompt =
     (if levelMatches (toLowerCase prompt) ''multiFile'' then MULTI_FILE
      else if levelMatches (toLowerCase prompt) ''complex'' then COMPLEX
      else if levelMatches (toLowerCase prompt) ''moderate'' then MODERATE
      else SIMPLE)"

definition escalated :: "string \<Rightarrow> string \<Rightarrow> string \<Rightarrow> bool" where
  "escalated prompt filePath fileContent =
     (length fileContent > 50000 \<or> extname filePath \<in> set complexFileTypes \<or>
      2 < length (filter (\<lambda>pattern. pattern prompt) structuralPatterns))"

section \<open>Dependency analyzer: the graph\<close>

text \<open>
  The remaining functions of the path module, on the segments between separators.
  \<^verbatim>\<open>path.resolve\<close> falls back on the working directory of the process, the parameter
  \<open>cwd\<close>.
\<close>

fun splitSlash :: "string \<Rightarrow> string list" where
  "splitSlash [] = [[]]"
| "splitSlash (c # cs) =
     (if c = CHR ''/'' then [] # splitSlash cs
      else (case splitSlash cs of [] \<Rightarrow> [[c]] | seg # segs \<Rightarrow> (c # seg) # segs))"

text \<open>
  \<^verbatim>\<open>normalizeString\<close>: empty segments and \<^verbatim>\<open>.\<close> are dropped, \<^verbatim>\<open>..\<close> removes the segment before
  it, and is kept only above the start of a relative path. \<open>acc\<close> holds the result so
  far, last segment first.
\<close>

fun normalizeSegments :: "bool \<Rightarrow> string list \<Rightarrow> string list \<Rightarrow> string list" where
  "normalizeSegments allowAboveRoot acc [] = rev acc"
| "normalizeSegments allowAboveRoot acc (seg # segs) =
     (if seg = [] \<or> seg = ''.'' then normalizeSegments allowAboveRoot acc segs
      else if seg = ''..'' then
        (case acc of
           [] \<Rightarrow> normalizeSegments allowAboveRoot (if allowAboveRoot then [''..''] else []) segs
         | a # as \<Rightarrow>
             (if a = ''..''
              then normalizeSegments allowAboveRoot (if allowAboveRoot then ''..'' # acc else acc) segs
              else normalizeSegments allowAboveRoot as segs))
      else normalizeSegments allowAboveRoot (seg # acc) segs)"

definition normalizeString :: "string \<Rightarrow> bool \<Rightarrow> string" where
  "normalizeString p allowAboveRoot =
     join (normalizeSegments allowAboveRoot [] (splitSlash p)) ''/''"

definition isAbsolute :: "string \<Rightarrow> bool" where
  "isAbsolute p = (case p of [] \<Rightarrow> False | c # _ \<Rightarrow> c = CHR ''/'')"

definition normalize :: "string \<Rightarrow> string" where
  "normalize p =
     (if p = [] then ''.''
      else let trailingSeparator = (last p = CHR ''/'');
               q = normalizeString p (\<not> isAbsolute p)
           in if q = [] then
                (if isAbsolute p then ''/'' else if trailingSeparator then ''./'' else ''.'')
              else (if isAbsolute p then ''/'' else []) @ q @
                   (if trailingSeparator then ''/'' else []))"

definition path_join :: "string list \<Rightarrow> string" where
  "path_join args =
     (let parts = filter (\<lambda>a. a \<noteq> []) args
      in if parts = [] then ''.'' else normalize (join parts ''/''))"

text \<open>
  \<^verbatim>\<open>path.resolve\<close>: the arguments are prepended from the right until the path is
  absolute, the working directory last.
\<close>

fun resolvePrepend :: "string list \<Rightarrow> string \<Rightarrow> string" where
  "resolvePrepend [] resolved = resolved"
| "resolvePrepend (p # ps) resolved =
     (if p = [] then resolvePrepend ps resolved
      else if isAbsolute p then p @ ''/'' @ resolved
      else resolvePrepend ps (p @ ''/'' @ resolved))"

definition path_resolve :: "string \<Rightarrow> string list \<Rightarrow> string" where
  "path_resolve cwd args =
     (let resolvedPath = resolvePrepend (rev args @ [cwd]) [];
          resolvedAbsolute = isAbsolute resolvedPath;
          q = normalizeString resolvedPath (\<not> resolvedAbsolute)
      in if resolvedAbsolute then ''/'' @ q else if q \<noteq> [] then q else ''.'')"

fun dropCommonPrefix :: "string list \<Rightarrow> string list \<Rightarrow> string list \<times> string list" where
  "dropCommonPrefix (x # xs) (y # ys) =
     (if x = y then dropCommonPrefix xs ys else (x # xs, y # ys))"
| "dropCommonPrefix xs ys = (xs, ys)"

definition path_relative :: "string \<Rightarrow> string \<Rightarrow> string \<Rightarrow> string" where
  "path_relative cwd from to =
     (if from = to then []
      else let f = path_resolve cwd [from]; t = path_resolve cwd [to]
           in if f = t then []
              else let segsOf = (\<lambda>p. filter (\<lambda>s. s \<noteq> []) (splitSlash p));
                       (fs, ts) = dropCommonPrefix (segsOf f) (segsOf t)
                   in join (map (\<lambda>_. ''..'') fs @ ts) ''/'')"

record FileNode =
  node_path :: string
  node_imports :: "string list"
  node_exports :: "string list"
  node_size :: nat
  node_lastModified :: nat

text \<open>
  The three maps of a graph, as association lists in insertion order. The weight keys
  are the strings \<^verbatim>\<open>`${file}->${dep}`\<close>.
\<close>

record DependencyGraph =
  nodes :: "(string \<times> FileNode) list"
  edges :: "(string \<times> string list) list"
  weights :: "(string \<times> rat) list"

text \<open>\<^verbatim>\<open>m.has(k)\<close>\<close>

definition has :: "('k \<times> 'v) list \<Rightarrow> 'k \<Rightarrow> bool" where
  "has m k = (map_of m k \<noteq> None)"

definition extensions :: "string list" where
  "extensions = [''.ts'', ''.tsx'', ''.js'', ''.jsx'', ''.py'', ''.java'', ''.cpp'', ''.c'', ''.cs'']"

text \<open>\<^verbatim>\<open>resolveImportPath\<close>; \<open>None\<close> is \<^verbatim>\<open>null\<close>.\<close>

definition resolveImportPath ::
  "string \<Rightarrow> string \<Rightarrow> string \<Rightarrow> string \<Rightarrow> (string \<times> FileNode) list \<Rightarrow> string option" where
  "resolveImportPath cwd importPath currentFile basePath ns =
     (if startsWith importPath ''.'' then
        (let currentDir = dirname (path_join [basePath, currentFile]);
             resolvedPath = path_resolve cwd [currentDir, importPath];
             relativePath = path_relative cwd basePath resolvedPath
         in case find (\<lambda>ext. has ns (relativePath @ ext)) extensions of
              Some ext \<Rightarrow> Some (relativePath @ ext)
            | None \<Rightarrow>
                (case find (\<lambda>ext. has ns (path_join [relativePath, ''index'' @ ext])) extensions of
                   Some ext \<Rightarrow> Some (path_join [relativePath, ''index'' @ ext])
                 | None \<Rightarrow> None))
      else None)"

text \<open>
  The dependencies \<^verbatim>\<open>buildGraphEdges\<close> collects for one node. A resolved path is pushed
  when it is truthy (not \<^verbatim>\<open>null\<close>, not empty) and a key of the node map.
\<close>

definition nodeDependencies ::
  "string \<Rightarrow> string \<Rightarrow> (string \<times> FileNode) list \<Rightarrow> string \<Rightarrow> FileNode \<Rightarrow> string list" where
  "nodeDependencies cwd basePath ns filePath node =
     foldl (\<lambda>dependencies importPath.
              (case resolveImportPath cwd importPath filePath basePath ns of
                 None \<Rightarrow> dependencies
               | Some resolvedPath \<Rightarrow>
                   (if resolvedPath \<noteq> [] \<and> has ns resolvedPath
                    then dependencies @ [resolvedPath] else dependencies)))
       [] (node_imports node)"

text \<open>\<^verbatim>\<open>buildGraphEdges\<close>: one \<^verbatim>\<open>edges.set\<close> per entry of the node map.\<close>

definition buildGraphEdges :: "string \<Rightarrow> DependencyGraph \<Rightarrow> string \<Rightarrow> DependencyGraph" where
  "buildGraphEdges cwd graph basePath =
     graph\<lparr> edges :=
       foldl (\<lambda>es (filePath, node).
                AList.update filePath (nodeDependencies cwd basePath (nodes graph) filePath node) es)
         (edges graph) (nodes graph) \<rparr>"

text \<open>\<^verbatim>\<open>calculateEdgeWeights\<close>\<close>

definition countDependency :: "(string \<times> nat) list \<Rightarrow> string \<Rightarrow> (string \<times> nat) list" where
  "countDependency dependencyCount dep =
     AList.update dep ((case map_of dependencyCount dep of None \<Rightarrow> 0 | Some n \<Rightarrow> n) + 1)
       dependencyCount"

definition calculateEdgeWeights :: "DependencyGraph \<Rightarrow> DependencyGraph" where
  "calculateEdgeWeights graph =
     (let dependencyCount =
            foldl (\<lambda>cnt dependencies. foldl countDependency cnt dependencies) []
              (map snd (edges graph));
          maxCount = Max (set (map snd dependencyCount @ [1]));
          frequencyOf = (\<lambda>dep. case map_of dependencyCount dep of
                                 None \<Rightarrow> 1 | Some n \<Rightarrow> (if n = 0 then 1 else n))
      in graph\<lparr> weights :=
           foldl (\<lambda>ws (file, dependencies).
                    foldl (\<lambda>ws' dep.
                             AList.update (file @ ''->'' @ dep)
                               (rat_of_nat (frequencyOf dep) / rat_of_nat maxCount) ws')
                      ws dependencies)
             (weights graph) (edges graph) \<rparr>)"

text \<open>
  What \<^verbatim>\<open>buildDependencyGraph\<close> gets from the file system: the sorted list of source
  files under a root (\<^verbatim>\<open>findSourceFiles\<close>, which catches the error of every search and so
  always returns a list), and the node \<^verbatim>\<open>analyzeFile\<close> extracts from a file with the
  import and export patterns, \<open>None\<close> when reading the file or its size fails.
\<close>

record AnalyzerEnv =
  findSourceFiles :: "string \<Rightarrow> string list"
  analyzeFile :: "string \<Rightarrow> string \<Rightarrow> FileNode option"
  workingDirectory :: string

text \<open>
  \<^verbatim>\<open>buildDependencyGraph\<close>: a file whose analysis fails is skipped; the nodes are entered
  in the order of the file list. Its \<^verbatim>\<open>catch\<close> logs and rethrows, but nothing in its
  \<^verbatim>\<open>try\<close> throws: the enumeration and the analysis of each file catch their own errors,
  and the two graph passes only read and fill the maps.
\<close>

definition buildDependencyGraph :: "AnalyzerEnv \<Rightarrow> string \<Rightarrow> DependencyGraph" where
  "buildDependencyGraph env appPath =
     (let files = findSourceFiles env appPath;
          graph0 = \<lparr> nodes = [], edges = [], weights = [] \<rparr>;
          graph1 = graph0\<lparr> nodes :=
            foldl (\<lambda>ns filePath.
                     (case analyzeFile env filePath appPath of
                        None \<Rightarrow> ns
                      | Some node \<Rightarrow> AList.update filePath node ns))
              (nodes graph0) files \<rparr>;
          graph2 = buildGraphEdges (workingDirectory env) graph1 appPath
      in calculateEdgeWeights graph2)"

section \<open>Dependency analyzer: traversals\<close>

text \<open>\<^verbatim>\<open>graph.edges.get(file) || []\<close>\<close>

definition edgesOf :: "(string \<times> string list) list \<Rightarrow> string \<Rightarrow> string list" where
  "edgesOf es file = (case map_of es file of None \<Rightarrow> [] | Some dependencies \<Rightarrow> dependencies)"

text \<open>
  The loop of \<^verbatim>\<open>findTransitiveDependencies\<close>, and word for word of
  \<^verbatim>\<open>getDependenciesAtDepth\<close>: the queue of files with their depths, the visited set, and
  the dependencies found so far.
\<close>

function bfsLoop ::
  "(string \<times> string list) list \<Rightarrow> int \<Rightarrow> (string \<times> nat) list \<Rightarrow> string set \<Rightarrow> string list
     \<Rightarrow> string list" where
  "bfsLoop es maxDepth [] visited dependencies = dependencies"
| "bfsLoop es maxDepth ((file, depth) # queue) visited dependencies =
     (if file \<in> visited \<or> int depth > maxDepth then
        bfsLoop es maxDepth queue visited dependencies
      else
        bfsLoop es maxDepth
          (queue @ map (\<lambda>dep. (dep, depth + 1))
                     (filter (\<lambda>dep. dep \<notin> insert file visited) (edgesOf es file)))
          (insert file visited)
          (if depth > 0 then dependencies @ [file] else dependencies))"
  by pat_completeness auto
termination
proof (relation "measures [\<lambda>(es, maxDepth, queue, visited, dependencies).
                             card (fst ` set es - visited),
                           \<lambda>(es, maxDepth, queue, visited, dependencies). length queue]")
  show "wf (measures [\<lambda>(es, maxDepth, queue, visited, dependencies).
                             card (fst ` set es - visited),
                           \<lambda>(es, maxDepth, queue, visited, dependencies :: string list). length queue])"
    by simp
next
  fix es :: "(string \<times> string list) list" and maxDepth :: int and f :: string and d :: nat
    and q :: "(string \<times> nat) list" and visited :: "string set" and ds :: "string list"
  assume "f \<in> visited \<or> maxDepth < int d"
  then show "((es, maxDepth, q, visited, ds), (es, maxDepth, (f, d) # q, visited, ds))
           \<in> measures [\<lambda>(es, maxDepth, queue, visited, dependencies).
                             card (fst ` set es - visited),
                           \<lambda>(es, maxDepth, queue, visited, dependencies). length queue]"
    by simp
next
  fix es :: "(string \<times> string list) list" and maxDepth :: int and f :: string and d :: nat
    and q :: "(string \<times> nat) list" and visited :: "string set" and ds :: "string list"
  assume a: "\<not> (f \<in> visited \<or> maxDepth < int d)"
  show "((es, maxDepth,
          q @ map (\<lambda>dep. (dep, d + 1))
                (filter (\<lambda>dep. dep \<notin> insert f visited) (edgesOf es f)),
          insert f visited,
          if 0 < d then ds @ [f] else ds),
         (es, maxDepth, (f, d) # q, visited, ds))
        \<in> measures [\<lambda>(es, maxDepth, queue, visited, dependencies).
                             card (fst ` set es - visited),
                    \<lambda>(es, maxDepth, queue, visited, dependencies). length queue]"
  proof (cases "f \<in> fst ` set es")
    case True
    with a have "fst ` set es - insert f visited \<subset> fst ` set es - visited" by auto
    then have "card (fst ` set es - insert f visited) < card (fst ` set es - visited)"
      by (intro psubset_card_mono) simp_all
    then show ?thesis by simp
  next
    case False
    then have "map_of es f = None" by (simp add: map_of_eq_None_iff)
    then have e: "edgesOf es f = []" by (simp add: edgesOf_def)
    from False have "fst ` set es - insert f visited = fst ` set es - visited" by auto
    with e show ?thesis by simp
  qed
qed

definition findTransitiveDependencies :: "DependencyGraph \<Rightarrow> string \<Rightarrow> int \<Rightarrow> string list" where
  "findTransitiveDependencies graph startFile maxDepth =
     bfsLoop (edges graph) maxDepth [(startFile, 0)] {} []"


record DfsState =
  visited :: "string set"
  recursionStack :: "string set"
  cycles :: "string list list"














section \<open>Semantic analyzer\<close>

datatype MatchType = Direct | Semantic | Structural

text \<open>The score \<^verbatim>\<open>contextImportance\<close> is a JavaScript number that can be \<^verbatim>\<open>NaN\<close>, here \<open>None\<close>.\<close>

record SemanticMatch =
  match_filePath :: string
  relevanceScore :: rat
  matchedEntities :: "string list"
  contextImportance :: "rat option"
  matchType :: MatchType

record EntityExtraction =
  ext_entities :: "string list"
  ext_keywords :: "string list"
  ext_fileTypes :: "string list"
  ext_concepts :: "string list"

text \<open>\<^verbatim>\<open>Array.from(new Set(xs))\<close>: the first occurrence of each element, in order.\<close>

definition dedupe :: "'a list \<Rightarrow> 'a list" where
  "dedupe xs = rev (remdups (rev xs))"

text \<open>
  \<^verbatim>\<open>s.split(/\s+/)\<close>: the pieces between runs of whitespace, with an empty piece before a
  leading and after a trailing run. \<open>cur\<close> is the piece being read, reversed.
\<close>

fun splitSpaces :: "bool \<Rightarrow> string \<Rightarrow> string \<Rightarrow> string list" where
  "splitSpaces inRun cur [] = [rev cur]"
| "splitSpaces inRun cur (c # cs) =
     (if isSpace c then
        (if inRun then splitSpaces True cur cs else rev cur # splitSpaces True [] cs)
      else splitSpaces False (c # cur) cs)"

text \<open>\<^verbatim>\<open>calculateTextSimilarity\<close>: the Jaccard similarity of the sets of words longer than 3.\<close>

definition calculateTextSimilarity :: "string \<Rightarrow> string \<Rightarrow> rat" where
  "calculateTextSimilarity text1 text2 =
     (if text1 = [] \<or> text2 = [] then 0
      else let words1 = dedupe (filter (\<lambda>w. length w > 3) (splitSpaces False [] text1));
               words2 = dedupe (filter (\<lambda>w. length w > 3) (splitSpaces False [] text2))
           in if length words1 = 0 \<or> length words2 = 0 then 0
              else let intersection = dedupe (filter (\<lambda>w. w \<in> set words2) words1);
                       union = dedupe (words1 @ words2)
                   in rat_of_nat (length intersection) / rat_of_nat (length union))"

definition structuralPatternBonuses :: "(string \<times> rat) list" where
  "structuralPatternBonuses =
     [(''index'', 15 / 10), (''main'', 15 / 10), (''app'', 12 / 10),
      (''component'', 1), (''widget'', 1),
      (''service'', 1), (''util'', 8 / 10), (''helper'', 8 / 10),
      (''config'', 8 / 10), (''setting'', 8 / 10),
      (''test'', 5 / 10), (''spec'', 5 / 10), (''mock'', 3 / 10)]"

definition importantDirs :: "string list" where
  "importantDirs = [''src'', ''components'', ''pages'', ''services'', ''utils'', ''lib'']"

text \<open>\<^verbatim>\<open>calculateStructuralScore\<close>; the extraction is not read.\<close>

definition calculateStructuralScore :: "string \<Rightarrow> EntityExtraction \<Rightarrow> rat" where
  "calculateStructuralScore filePath extraction =
     (let fileName = basename filePath;
          dirName = dirname filePath;
          score1 = foldl (\<lambda>score (pattern, bonus).
                     if str_includes (toLowerCase fileName) pattern \<or>
                        str_includes (toLowerCase dirName) pattern
                     then score + bonus else score) 0 structuralPatternBonuses
      in foldl (\<lambda>score dir. if str_includes dirName dir then score + 3 / 10 else score)
           score1 importantDirs)"

definition fileTypeImportance :: "(string \<times> rat) list" where
  "fileTypeImportance =
     [(''ts'', 1), (''tsx'', 1), (''js'', 9 / 10), (''jsx'', 9 / 10), (''py'', 9 / 10),
      (''java'', 8 / 10), (''cpp'', 8 / 10), (''json'', 7 / 10), (''md'', 4 / 10)]"

text \<open>
  The table is an object literal, so a lookup also finds the members every object
  inherits; none of them is a number, and the product with one is \<^verbatim>\<open>NaN\<close>.
\<close>

definition inheritedMembers :: "string list" where
  "inheritedMembers =
     [''constructor'', ''hasOwnProperty'', ''isPrototypeOf'', ''propertyIsEnumerable'',
      ''toLocaleString'', ''toString'', ''valueOf'', ''__proto__'', ''__defineGetter__'',
      ''__defineSetter__'', ''__lookupGetter__'', ''__lookupSetter__'']"

text \<open>\<^verbatim>\<open>calculateContextImportance\<close>; the extraction is not read.\<close>

definition calculateContextImportance :: "string \<Rightarrow> EntityExtraction \<Rightarrow> rat option" where
  "calculateContextImportance filePath extraction =
     (let fileName = basename filePath;
          fileExtension = drop 1 (extname filePath)
      in if fileExtension \<in> set inheritedMembers then None
         else
           (let i0 = (1 / 2) * (case map_of fileTypeImportance fileExtension of
                                  Some v \<Rightarrow> v | None \<Rightarrow> 1 / 2);
                i1 = (if str_includes (toLowerCase fileName) ''index'' then i0 + 3 / 10 else i0);
                i2 = (if str_includes (toLowerCase fileName) ''main'' then i1 + 3 / 10 else i1);
                i3 = (if str_includes (toLowerCase fileName) ''app'' then i2 + 2 / 10 else i2)
            in Some (min i3 1)))"

text \<open>The local variables of \<^verbatim>\<open>analyzeFileRelevance\<close> that its loops update.\<close>

record RelevanceVars =
  r_score :: rat
  r_matched :: "string list"
  r_matchType :: MatchType

definition entityStep :: "string \<Rightarrow> string \<Rightarrow> RelevanceVars \<Rightarrow> string \<Rightarrow> RelevanceVars" where
  "entityStep normalizedFileName normalizedContent v entity =
     (let normalizedEntity = toLowerCase entity;
          v1 = (if str_includes normalizedFileName normalizedEntity
                then v\<lparr> r_score := r_score v + 2, r_matched := r_matched v @ [entity],
                        r_matchType := Direct \<rparr>
                else v)
      in if str_includes normalizedContent normalizedEntity
         then v1\<lparr> r_score := r_score v1 + 1, r_matched := r_matched v1 @ [entity],
                  r_matchType := (if r_matchType v1 = Structural then Semantic
                                  else r_matchType v1) \<rparr>
         else v1)"

definition fileTypeStep' :: "string \<Rightarrow> string \<Rightarrow> RelevanceVars \<Rightarrow> string \<Rightarrow> RelevanceVars" where
  "fileTypeStep' fileExtension fileName v fileType =
     (if fileExtension = fileType \<or> str_includes fileName fileType
      then v\<lparr> r_score := r_score v + 1 / 2 \<rparr> else v)"

definition conceptStep :: "string \<Rightarrow> string \<Rightarrow> RelevanceVars \<Rightarrow> string \<Rightarrow> RelevanceVars" where
  "conceptStep normalizedFileName normalizedContent v concept =
     (let v1 = (if str_includes normalizedFileName concept
                then v\<lparr> r_score := r_score v + 15 / 10, r_matched := r_matched v @ [concept] \<rparr>
                else v)
      in if str_includes normalizedContent concept
         then v1\<lparr> r_score := r_score v1 + 8 / 10, r_matched := r_matched v1 @ [concept] \<rparr>
         else v1)"

definition keywordScoreStep :: "string \<Rightarrow> string \<Rightarrow> RelevanceVars \<Rightarrow> string \<Rightarrow> RelevanceVars" where
  "keywordScoreStep normalizedFileName normalizedContent v keyword =
     (let v1 = (if str_includes normalizedFileName keyword
                then v\<lparr> r_score := r_score v + 3 / 10 \<rparr> else v)
      in if str_includes normalizedContent keyword
         then v1\<lparr> r_score := r_score v1 + 2 / 10 \<rparr> else v1)"

text \<open>
  \<^verbatim>\<open>analyzeFileRelevance\<close>. \<open>readFile\<close> is the file system: the content of a file, \<open>None\<close>
  when reading fails; the content then stays empty.
\<close>

definition analyzeFileRelevance ::
  "(string \<Rightarrow> string option) \<Rightarrow> string \<Rightarrow> EntityExtraction \<Rightarrow> string \<Rightarrow> SemanticMatch" where
  "analyzeFileRelevance readFile filePath extraction originalPrompt =
     (let content = (case readFile filePath of Some c \<Rightarrow> c | None \<Rightarrow> []);
          fileName = basename filePath;
          fileExtension = drop 1 (extname filePath);
          normalizedContent = toLowerCase content;
          normalizedFileName = toLowerCase fileName;
          normalizedPrompt = toLowerCase originalPrompt;
          v0 = \<lparr> r_score = 0, r_matched = [], r_matchType = Structural \<rparr>;
          v1 = foldl (entityStep normalizedFileName normalizedContent) v0 (ext_entities extraction);
          v2 = foldl (fileTypeStep' fileExtension fileName) v1 (ext_fileTypes extraction);
          v3 = foldl (conceptStep normalizedFileName normalizedContent) v2 (ext_concepts extraction);
          v4 = foldl (keywordScoreStep normalizedFileName normalizedContent) v3
                 (ext_keywords extraction);
          s5 = r_score v4 + calculateStructuralScore filePath extraction;
          s6 = (if content \<noteq> []
                then s5 + calculateTextSimilarity normalizedPrompt normalizedContent * (1 / 2)
                else s5);
          sizeKB = rat_of_nat (length content) / 1024;
          s7 = (if content \<noteq> [] then
                  (if sizeKB > 100 then s6 * (8 / 10)
                   else if sizeKB < 1 / 2 then s6 * (9 / 10) else s6)
                else s6)
      in \<lparr> match_filePath = filePath,
           relevanceScore = min s7 10,
           matchedEntities = dedupe (r_matched v4),
           contextImportance = calculateContextImportance filePath extraction,
           matchType = r_matchType v4 \<rparr>)"


section \<open>Smart context processor\<close>



text \<open>The result of \<^verbatim>\<open>optimizeContextForTokens\<close>, and with the processing time added.\<close>

record TokenOptimization =
  selectedFiles :: "string list"
  totalTokens :: nat
  relevanceRatio :: rat


text \<open>
  What the processor gets from outside: the environment of the dependency analyzer, the
  entity extraction of the semantic analyzer, and the file system (\<^verbatim>\<open>fs.readFile\<close> and
  the size \<^verbatim>\<open>fs.stat\<close> reports, \<open>None\<close> when the call fails).
\<close>

record SmartEnv =
  analyzerEnv :: AnalyzerEnv
  extractEntities :: "string \<Rightarrow> EntityExtraction"
  readFile :: "string \<Rightarrow> string option"
  statSize :: "string \<Rightarrow> nat option"


text \<open>\<^verbatim>\<open>getDependenciesAtDepth\<close> runs the same loop as \<^verbatim>\<open>findTransitiveDependencies\<close>.\<close>

definition getDependenciesAtDepth :: "string \<Rightarrow> DependencyGraph \<Rightarrow> int \<Rightarrow> string list" where
  "getDependenciesAtDepth file graph maxDepth =
     bfsLoop (edges graph) maxDepth [(file, 0)] {} []"




text \<open>\<^verbatim>\<open>estimateFileTokens\<close>: a quarter of the content length, rounded up; 1000 on failure.\<close>

definition estimateFileTokens :: "SmartEnv \<Rightarrow> string \<Rightarrow> nat" where
  "estimateFileTokens env filePath =
     (case readFile env filePath of
        Some content \<Rightarrow> (length content + 3) div 4
      | None \<Rightarrow> 1000)"

definition extensionScores :: "(string \<times> rat) list" where
  "extensionScores =
     [(''.ts'', 1), (''.tsx'', 1), (''.js'', 9 / 10), (''.jsx'', 9 / 10), (''.py'', 9 / 10),
      (''.java'', 8 / 10), (''.cpp'', 8 / 10), (''.c'', 8 / 10), (''.cs'', 8 / 10),
      (''.json'', 7 / 10), (''.md'', 5 / 10), (''.txt'', 3 / 10)]"

text \<open>
  \<^verbatim>\<open>getExtensionScore\<close>: an extension is empty or starts with a dot, so the lookup finds
  the entries of the table only.
\<close>

definition getExtensionScore :: "string \<Rightarrow> rat" where
  "getExtensionScore ext = (case map_of extensionScores ext of Some v \<Rightarrow> v | None \<Rightarrow> 1 / 2)"

definition getSizeScore :: "SmartEnv \<Rightarrow> string \<Rightarrow> rat" where
  "getSizeScore env filePath =
     (case statSize env filePath of
        Some bytes \<Rightarrow>
          (let sizeKB = rat_of_nat bytes / 1024
           in if sizeKB < 1 then 3 / 10 else if sizeKB > 100 then 5 / 10 else 1)
      | None \<Rightarrow> 5 / 10)"

definition calculateFileRelevance :: "SmartEnv \<Rightarrow> string \<Rightarrow> rat" where
  "calculateFileRelevance env filePath =
     getExtensionScore (toLowerCase (extname filePath)) * getSizeScore env filePath"

record FileEstimate =
  est_file :: string
  est_tokens :: nat
  est_relevance :: rat

text \<open>The local variables of the selection loop.\<close>

record SelectionVars =
  sel_files :: "string list"
  sel_totalTokens :: nat
  sel_totalRelevance :: rat
  sel_maxPossibleRelevance :: rat

definition selectStep :: "rat \<Rightarrow> SelectionVars \<Rightarrow> FileEstimate \<Rightarrow> SelectionVars" where
  "selectStep maxTokens' v estimate =
     (let v1 = v\<lparr> sel_maxPossibleRelevance := sel_maxPossibleRelevance v + est_relevance estimate \<rparr>
      in if rat_of_nat (sel_totalTokens v1 + est_tokens estimate) \<le> maxTokens'
         then v1\<lparr> sel_files := sel_files v1 @ [est_file estimate],
                  sel_totalTokens := sel_totalTokens v1 + est_tokens estimate,
                  sel_totalRelevance := sel_totalRelevance v1 + est_relevance estimate \<rparr>
         else v1)"

text \<open>
  \<^verbatim>\<open>optimizeContextForTokens\<close>. The comparator \<^verbatim>\<open>ratioB - ratioA\<close> sorts by descending
  relevance per token, and the sort is stable.
\<close>

definition optimizeContextForTokens :: "SmartEnv \<Rightarrow> string list \<Rightarrow> rat \<Rightarrow> TokenOptimization" where
  "optimizeContextForTokens env candidateFiles maxTokens' =
     (if length candidateFiles = 0 then
        \<lparr> selectedFiles = [], totalTokens = 0, relevanceRatio = 0 \<rparr>
      else
        (let fileTokenEstimates =
               map (\<lambda>file. \<lparr> est_file = file,
                              est_tokens = estimateFileTokens env file,
                              est_relevance = calculateFileRelevance env file \<rparr>)
                 candidateFiles;
             sorted = sort_key (\<lambda>e. - (est_relevance e / rat_of_nat (max (est_tokens e) 1)))
                        fileTokenEstimates;
             v = foldl (selectStep maxTokens')
                   \<lparr> sel_files = [], sel_totalTokens = 0, sel_totalRelevance = 0,
                     sel_maxPossibleRelevance = 0 \<rparr> sorted
         in \<lparr> selectedFiles = sel_files v,
              totalTokens = sel_totalTokens v,
              relevanceRatio =
                (if sel_maxPossibleRelevance v > 0
                 then sel_totalRelevance v / sel_maxPossibleRelevance v else 0) \<rparr>))"










section \<open>Edit validator\<close>

text \<open>
  The findings are Portuguese sentences; the ones of the syntax, structure and length
  rules are constructors, with the values they interpolate, and the ones of the other
  rules are carried as text.
\<close>

datatype Issue =
    EmptyResult
  | UndefinedIntroduced
  | NullIntroduced
  | SyntaxError string
  | OpenBracesChanged
  | CloseBracesChanged
  | BracesUnbalanced
  | ParensUnbalanced
  | BracketsUnbalanced
  | SizeChange nat nat
  | ResultTooSmall
  | InternalError string
  | OtherIssue string

record ValidationResult =
  passed :: bool
  issues :: "Issue list"
  result_confidence :: rat

text \<open>A validator returns its result, or throws (\<open>Inl\<close>, with the message of the error).\<close>

type_synonym Validator = "string \<Rightarrow> string \<Rightarrow> string \<Rightarrow> string + ValidationResult"

record ValidationRule =
  rule_name :: string
  rule_weight :: rat
  validator :: Validator

record EditValidation =
  syntaxValid :: bool
  structureIntact :: bool
  potentialIssues :: "Issue list"
  validation_confidence :: rat
  validation_level :: ValidationLevel
  validation_processingTime :: int

text \<open>
  What the validator takes from outside: \<^verbatim>\<open>JSON.parse\<close>, as the message of the error it
  throws on a text, \<open>None\<close> when it accepts the text; and the validators of the rules
  that match regular expressions, which are not modelled.
\<close>

record ValidatorEnv =
  jsonParseError :: "string \<Rightarrow> string option"
  importsValidator :: "string \<Rightarrow> Validator"
  styleValidator :: Validator
  typescriptValidator :: Validator
  javascriptValidator :: Validator
  securityValidator :: Validator
  performanceValidator :: Validator
  accessibilityValidator :: "string \<Rightarrow> Validator"

text \<open>\<^verbatim>\<open>s.trim()\<close>\<close>

definition trim :: "string \<Rightarrow> string" where
  "trim s = rev (dropWhile isSpace (rev (dropWhile isSpace s)))"

text \<open>
  The validator of \<^verbatim>\<open>createSyntaxValidationRule\<close>. Its third parameter is named
  \<^verbatim>\<open>_filePath\<close>, and the calls of \<^verbatim>\<open>validateJavaScriptSyntax\<close> and
  \<^verbatim>\<open>validatePythonSyntax\<close> pass \<^verbatim>\<open>filePath\<close>, a name that is bound nowhere in the module:
  evaluating the argument throws a \<^verbatim>\<open>ReferenceError\<close> before either function is called,
  and the \<^verbatim>\<open>catch\<close> of the validator turns it into a failed result.
\<close>

definition introducedChecks :: "string \<Rightarrow> string \<Rightarrow> Issue list" where
  "introducedChecks originalContent editedContent =
     (if str_includes editedContent ''undefined'' \<and> \<not> str_includes originalContent ''undefined''
      then [UndefinedIntroduced] else []) @
     (if str_includes editedContent ''null'' \<and> \<not> str_includes originalContent ''null''
      then [NullIntroduced] else [])"

definition syntaxValidator :: "ValidatorEnv \<Rightarrow> string \<Rightarrow> Validator" where
  "syntaxValidator env fileExtension originalContent editedContent filePath' =
     (let caught = (\<lambda>message.
            \<lparr> passed = False, issues = [SyntaxError message], result_confidence = 1 / 10 \<rparr>);
          finish = (\<lambda>passed' issues'.
            \<lparr> passed = passed', issues = issues',
              result_confidence = (if passed' then 9 / 10 else 1 / 10) \<rparr>)
      in Inr
        (if fileExtension = ''.json'' then
           (case jsonParseError env editedContent of
              Some message \<Rightarrow> caught message
            | None \<Rightarrow> finish True (introducedChecks originalContent editedContent))
         else if fileExtension \<in> set [''.js'', ''.jsx'', ''.ts'', ''.tsx''] then
           caught ''filePath is not defined''
         else if fileExtension = ''.py'' then
           caught ''filePath is not defined''
         else if length (trim editedContent) = 0 then
           finish False ([EmptyResult] @ introducedChecks originalContent editedContent)
         else finish True (introducedChecks originalContent editedContent)))"

definition createSyntaxValidationRule :: "ValidatorEnv \<Rightarrow> string \<Rightarrow> ValidationRule" where
  "createSyntaxValidationRule env fileExtension =
     \<lparr> rule_name = ''syntax'', rule_weight = 1, validator = syntaxValidator env fileExtension \<rparr>"

text \<open>\<^verbatim>\<open>countCharacters\<close>, for one character.\<close>

definition countCharacter :: "string \<Rightarrow> char \<Rightarrow> nat" where
  "countCharacter content c = length (filter (\<lambda>x. x = c) content)"

definition structureValidator :: Validator where
  "structureValidator originalContent editedContent filePath' =
     (let tolerance = (1 / 10 :: rat);
          distance = (\<lambda>a b. \<bar>rat_of_nat a - rat_of_nat b\<bar>);
          issues1 =
            (if distance (countCharacter originalContent (CHR ''{''))
                  (countCharacter editedContent (CHR ''{''))
                > rat_of_nat (countCharacter originalContent (CHR ''{'')) * tolerance
             then [OpenBracesChanged] else []);
          issues2 =
            (if distance (countCharacter originalContent (CHR ''}''))
                  (countCharacter editedContent (CHR ''}''))
                > rat_of_nat (countCharacter originalContent (CHR ''}'')) * tolerance
             then [CloseBracesChanged] else []);
          issues3 =
            (if countCharacter editedContent (CHR ''{'') \<noteq> countCharacter editedContent (CHR ''}'')
             then [BracesUnbalanced] else []);
          issues4 =
            (if countCharacter editedContent (CHR ''('') \<noteq> countCharacter editedContent (CHR '')'')
             then [ParensUnbalanced] else []);
          issues5 =
            (if countCharacter editedContent (CHR ''['') \<noteq> countCharacter editedContent (CHR '']'')
             then [BracketsUnbalanced] else []);
          issues' = issues1 @ issues2 @ issues3 @ issues4 @ issues5;
          passed' = (issues' = [])
      in Inr \<lparr> passed = passed', issues = issues',
               result_confidence = (if passed' then 8 / 10 else 3 / 10) \<rparr>)"

definition createStructureValidationRule :: ValidationRule where
  "createStructureValidationRule =
     \<lparr> rule_name = ''structure'', rule_weight = 8 / 10, validator = structureValidator \<rparr>"

definition lengthValidator :: Validator where
  "lengthValidator originalContent editedContent filePath' =
     (let originalLines = lineCount originalContent;
          editedLines = lineCount editedContent;
          lineDiff = \<bar>int editedLines - int originalLines\<bar>;
          issues1 = (if lineDiff > int originalLines * 2
                     then [SizeChange originalLines editedLines] else []);
          tooSmall = (rat_of_nat (length editedContent)
                        < rat_of_nat (length originalContent) * (1 / 10))
      in Inr \<lparr> passed = (\<not> tooSmall),
               issues = issues1 @ (if tooSmall then [ResultTooSmall] else []),
               result_confidence = 7 / 10 \<rparr>)"

definition createLengthValidationRule :: ValidationRule where
  "createLengthValidationRule =
     \<lparr> rule_name = ''length'', rule_weight = 3 / 10, validator = lengthValidator \<rparr>"

text \<open>The rules whose validators are taken from the environment, with their names and weights.\<close>

definition createImportExportValidationRule :: "ValidatorEnv \<Rightarrow> string \<Rightarrow> ValidationRule" where
  "createImportExportValidationRule env fileExtension =
     \<lparr> rule_name = ''imports'', rule_weight = 6 / 10,
       validator = importsValidator env fileExtension \<rparr>"

definition createStyleConsistencyRule :: "ValidatorEnv \<Rightarrow> ValidationRule" where
  "createStyleConsistencyRule env =
     \<lparr> rule_name = ''style'', rule_weight = 4 / 10, validator = styleValidator env \<rparr>"

definition createTypeScriptValidationRule :: "ValidatorEnv \<Rightarrow> ValidationRule" where
  "createTypeScriptValidationRule env =
     \<lparr> rule_name = ''typescript'', rule_weight = 7 / 10, validator = typescriptValidator env \<rparr>"

definition createJavaScriptValidationRule :: "ValidatorEnv \<Rightarrow> ValidationRule" where
  "createJavaScriptValidationRule env =
     \<lparr> rule_name = ''javascript'', rule_weight = 6 / 10, validator = javascriptValidator env \<rparr>"

definition createSecurityValidationRule :: "ValidatorEnv \<Rightarrow> ValidationRule" where
  "createSecurityValidationRule env =
     \<lparr> rule_name = ''security'', rule_weight = 9 / 10, validator = securityValidator env \<rparr>"

definition createPerformanceValidationRule :: "ValidatorEnv \<Rightarrow> ValidationRule" where
  "createPerformanceValidationRule env =
     \<lparr> rule_name = ''performance'', rule_weight = 5 / 10, validator = performanceValidator env \<rparr>"

definition createAccessibilityValidationRule :: "ValidatorEnv \<Rightarrow> string \<Rightarrow> ValidationRule" where
  "createAccessibilityValidationRule env fileExtension =
     \<lparr> rule_name = ''accessibility'', rule_weight = 4 / 10,
       validator = accessibilityValidator env fileExtension \<rparr>"

text \<open>\<^verbatim>\<open>getValidationRules\<close> of the validator.\<close>

definition getValidationRules :: "ValidatorEnv \<Rightarrow> ValidationLevel \<Rightarrow> string \<Rightarrow> ValidationRule list" where
  "getValidationRules env level filePath' =
     (let fileExtension = toLowerCase (extname filePath');
          rules0 = [createSyntaxValidationRule env fileExtension,
                    createStructureValidationRule,
                    createLengthValidationRule];
          rules1 =
            (if level = Enhanced \<or> level = Strict then
               rules0 @
               [createImportExportValidationRule env fileExtension,
                createStyleConsistencyRule env] @
               (if fileExtension \<in> set [''.ts'', ''.tsx'']
                then [createTypeScriptValidationRule env] else []) @
               (if fileExtension \<in> set [''.js'', ''.jsx'', ''.ts'', ''.tsx'']
                then [createJavaScriptValidationRule env] else [])
             else rules0)
      in if level = Strict then
           rules1 @
           [createSecurityValidationRule env,
            createPerformanceValidationRule env,
            createAccessibilityValidationRule env fileExtension]
         else rules1)"

text \<open>
  One rule as \<^verbatim>\<open>validateEdit\<close> runs it: an exception of the validator becomes a failed
  result of confidence 0.1.
\<close>

definition runRule :: "string \<Rightarrow> string \<Rightarrow> string \<Rightarrow> ValidationRule \<Rightarrow> ValidationResult" where
  "runRule originalContent editedContent filePath' rule =
     (case validator rule originalContent editedContent filePath' of
        Inr result \<Rightarrow> result
      | Inl message \<Rightarrow>
          \<lparr> passed = False, issues = [InternalError message], result_confidence = 1 / 10 \<rparr>)"

text \<open>
  \<^verbatim>\<open>validateEdit\<close>; \<open>elapsed\<close> is the time the clock measures. Nothing in its \<^verbatim>\<open>try\<close>
  throws, since every rule runs under a \<^verbatim>\<open>catch\<close> of its own.
\<close>

definition validateEdit ::
  "ValidatorEnv \<Rightarrow> string \<Rightarrow> string \<Rightarrow> string \<Rightarrow> ValidationLevel \<Rightarrow> int \<Rightarrow> EditValidation" where
  "validateEdit env originalContent editedContent filePath' level elapsed =
     (let rules = getValidationRules env level filePath';
          results = map (\<lambda>rule. (rule, runRule originalContent editedContent filePath' rule))
                      rules;
          totalWeight = sum_list (map rule_weight rules);
          weightedConfidence =
            sum_list (map (\<lambda>(rule, result). result_confidence result * rule_weight rule) results);
          allIssues = concat (map (\<lambda>(rule, result). issues result) results)
      in \<lparr> syntaxValid =
             list_ex (\<lambda>(rule, result). rule_name rule = ''syntax'' \<and> passed result) results,
           structureIntact =
             list_ex (\<lambda>(rule, result). rule_name rule = ''structure'' \<and> passed result) results,
           potentialIssues = allIssues,
           validation_confidence =
             (if totalWeight > 0 then weightedConfidence / totalWeight else 0),
           validation_level = level,
           validation_processingTime = elapsed \<rparr>)"

text \<open>
  Notions used to state the properties of the validator: a content whose braces,
  parentheses and brackets are balanced, and the findings of the rules other than the
  structure and the length rule.
\<close>

definition balanced :: "string \<Rightarrow> bool" where
  "balanced c =
     (countCharacter c (CHR ''{'') = countCharacter c (CHR ''}'') \<and>
      countCharacter c (CHR ''('') = countCharacter c (CHR '')'') \<and>
      countCharacter c (CHR ''['') = countCharacter c (CHR '']''))"

definition issuesOfOtherRules ::
  "ValidatorEnv \<Rightarrow> string \<Rightarrow> string \<Rightarrow> string \<Rightarrow> ValidationLevel \<Rightarrow> Issue list" where
  "issuesOfOtherRules env originalContent editedContent filePath' level =
     concat (map (\<lambda>rule. issues (runRule originalContent editedContent filePath' rule))
       (filter (\<lambda>rule. rule_name rule \<noteq> ''structure'' \<and> rule_name rule \<noteq> ''length'')
          (getValidationRules env level filePath')))"

text \<open>
  The rule list starts with the syntax, structure and length rules; no later rule has
  one of their names.
\<close>

definition laterRuleName :: "ValidationRule \<Rightarrow> bool" where
  "laterRuleName rule =
     (rule_name rule \<noteq> ''syntax'' \<and> rule_name rule \<noteq> ''structure'' \<and>
      rule_name rule \<noteq> ''length'')"

section \<open>Properties of strategy selection\<close>

lemma strategyCacheOk_hit:
  assumes "strategyCacheOk cfg cache"
    and "map_of cache (c, modelStrategy cfg, e) = Some s"
  shows "s = strategyForComplexity cfg c"
proof -
  from assms(2) have "((c, modelStrategy cfg, e), s) \<in> set cache"
    by (rule map_of_SomeD)
  with assms(1) show ?thesis
    unfolding strategyCacheOk_def list_all_iff by fastforce
qed

lemma selectOptimalStrategy_result:
  assumes "strategyCacheOk cfg cache"
  shows "fst (selectOptimalStrategy cfg cache c filePath) = strategyForComplexity cfg c"
proof (cases "map_of cache (c, modelStrategy cfg, extname filePath)")
  case None
  then show ?thesis by (simp add: selectOptimalStrategy_def Let_def)
next
  case (Some s)
  with assms have "s = strategyForComplexity cfg c"
    by (rule strategyCacheOk_hit)
  with Some show ?thesis by (simp add: selectOptimalStrategy_def Let_def)
qed

lemma strategyCacheOk_empty: "strategyCacheOk cfg []"
  by (simp add: strategyCacheOk_def)

lemma strategyCacheOk_update:
  assumes "strategyCacheOk cfg cache"
  shows "strategyCacheOk cfg
           (AList.update (c, modelStrategy cfg, e) (strategyForComplexity cfg c) cache)"
  using assms unfolding strategyCacheOk_def
  by (induction cache) auto

lemma selectOptimalStrategy_keeps_cache:
  assumes "strategyCacheOk cfg cache"
  shows "strategyCacheOk cfg (snd (selectOptimalStrategy cfg cache c filePath))"
  using assms strategyCacheOk_update [OF assms]
  by (simp add: selectOptimalStrategy_def Let_def split: option.splits)

lemma strategy_maxTokens_mono:
  "tier c \<le> tier c' \<Longrightarrow>
     maxTokens (strategyForComplexity cfg c) \<le> maxTokens (strategyForComplexity cfg c')"
  by (cases c; cases c'; simp)

lemma strategy_retry_mono:
  "tier c \<le> tier c' \<Longrightarrow>
     maxAttempts (retryPolicy (strategyForComplexity cfg c))
       \<le> maxAttempts (retryPolicy (strategyForComplexity cfg c')) \<and>
     backoffMultiplier (retryPolicy (strategyForComplexity cfg c))
       \<le> backoffMultiplier (retryPolicy (strategyForComplexity cfg c')) \<and>
     initialDelay (retryPolicy (strategyForComplexity cfg c))
       \<le> initialDelay (retryPolicy (strategyForComplexity cfg c'))"
  by (cases c; cases c'; simp)

text \<open>
  C8. For a fixed configuration (model-strategy preference) and any file paths, the
  strategy returned by \<^verbatim>\<open>selectOptimalStrategy\<close> has \<open>maxTokens\<close>, \<open>maxAttempts\<close>,
  \<open>backoffMultiplier\<close> and \<open>initialDelay\<close> non-decreasing in the complexity tier; at
  SIMPLE the retry policy is 2 attempts, factor 1.5, 1000 ms, and at MULTI_FILE it is
  4 attempts, factor 3.0, 3000 ms. The caches are those the processor itself has filled.
\<close>

theorem selectOptimalStrategy_monotone_in_tier:
  assumes "strategyCacheOk cfg cache" and "strategyCacheOk cfg cache'"
    and "tier c \<le> tier c'"
  shows "maxTokens (fst (selectOptimalStrategy cfg cache c filePath))
           \<le> maxTokens (fst (selectOptimalStrategy cfg cache' c' filePath')) \<and>
         maxAttempts (retryPolicy (fst (selectOptimalStrategy cfg cache c filePath)))
           \<le> maxAttempts (retryPolicy (fst (selectOptimalStrategy cfg cache' c' filePath'))) \<and>
         backoffMultiplier (retryPolicy (fst (selectOptimalStrategy cfg cache c filePath)))
           \<le> backoffMultiplier (retryPolicy (fst (selectOptimalStrategy cfg cache' c' filePath'))) \<and>
         initialDelay (retryPolicy (fst (selectOptimalStrategy cfg cache c filePath)))
           \<le> initialDelay (retryPolicy (fst (selectOptimalStrategy cfg cache' c' filePath'))) \<and>
         retryPolicy (fst (selectOptimalStrategy cfg cache SIMPLE filePath))
           = \<lparr> maxAttempts = 2, backoffMultiplier = 3 / 2, initialDelay = 1000 \<rparr> \<and>
         retryPolicy (fst (selectOptimalStrategy cfg cache MULTI_FILE filePath))
           = \<lparr> maxAttempts = 4, backoffMultiplier = 3, initialDelay = 3000 \<rparr>"
proof -
  have r: "fst (selectOptimalStrategy cfg cache k p) = strategyForComplexity cfg k" for k p
    using assms(1) by (rule selectOptimalStrategy_result)
  have r': "fst (selectOptimalStrategy cfg cache' k p) = strategyForComplexity cfg k" for k p
    using assms(2) by (rule selectOptimalStrategy_result)
  show ?thesis
    unfolding r r'
    using strategy_maxTokens_mono [OF assms(3), of cfg] strategy_retry_mono [OF assms(3), of cfg]
    by simp
qed

theorem selectOptimalStrategy_monotone_in_tier_witness:
  "strategyCacheOk \<lparr> complexityThreshold = ThresholdModerate, modelStrategy = PrefBalanced,
       enableValidation = True, maxRetries = 3 \<rparr> [] \<and>
   tier MODERATE \<le> tier COMPLEX \<and>
   maxTokens (fst (selectOptimalStrategy \<lparr> complexityThreshold = ThresholdModerate,
       modelStrategy = PrefBalanced, enableValidation = True, maxRetries = 3 \<rparr> [] MODERATE ''src/a.ts''))
     \<le> maxTokens (fst (selectOptimalStrategy \<lparr> complexityThreshold = ThresholdModerate,
       modelStrategy = PrefBalanced, enableValidation = True, maxRetries = 3 \<rparr> [] COMPLEX ''src/a.ts''))"
proof -
  let ?cfg = "\<lparr> complexityThreshold = ThresholdModerate, modelStrategy = PrefBalanced,
       enableValidation = True, maxRetries = 3 \<rparr>"
  have h: "strategyCacheOk ?cfg []" by (rule strategyCacheOk_empty)
  have t: "tier MODERATE \<le> tier COMPLEX" by simp
  from selectOptimalStrategy_monotone_in_tier [OF h h t, of "''src/a.ts''" "''src/a.ts''"] h t
  show ?thesis by blast
qed

section \<open>Properties of the complexity analysis\<close>

lemma startsWith_append: "startsWith s t \<Longrightarrow> startsWith (s @ u) t"
  by (induction s t rule: startsWith.induct) auto

lemma str_includes_append: "str_includes s t \<Longrightarrow> str_includes (s @ u) t"
proof (induction s)
  case Nil
  then show ?case by (cases u) auto
next
  case (Cons x xs)
  then show ?case
    using startsWith_append [of "x # xs" t u] by auto
qed

lemma toLowerCase_append: "toLowerCase (s @ u) = toLowerCase s @ toLowerCase u"
  by (simp add: toLowerCase_def)

lemma matchesSomewhere_append:
  assumes "\<And>s u. P s \<Longrightarrow> P (s @ u)"
  shows "matchesSomewhere P s \<Longrightarrow> matchesSomewhere P (s @ u)"
proof (induction s)
  case Nil
  then have "P []" by simp
  from assms [OF this, of u] have "P u" by simp
  then show ?case by (cases u) auto
next
  case (Cons x xs)
  then show ?case using assms [of "x # xs" u] by auto
qed

lemma dropWhile_Cons_append:
  "dropWhile Q r = w # ws \<Longrightarrow> dropWhile Q (r @ u) = w # ws @ u"
  by (induction r) (auto split: if_splits)

lemma takeWhile_nonempty_append:
  "takeWhile Q r \<noteq> [] \<Longrightarrow> takeWhile Q (r @ u) \<noteq> []"
  by (cases r) (auto split: if_splits)

lemma keywordSpaceWordAt_append:
  "keywordSpaceWordAt kw s \<Longrightarrow> keywordSpaceWordAt kw (s @ u)"
proof -
  assume a: "keywordSpaceWordAt kw s"
  let ?r = "drop (length kw) s"
  from a have sw: "startsWith (toLowerCase s) kw"
    and tw: "takeWhile isSpace ?r \<noteq> []"
    and dw: "(case dropWhile isSpace ?r of [] \<Rightarrow> False | w # _ \<Rightarrow> isWordChar w)"
    by (simp_all add: keywordSpaceWordAt_def Let_def)
  from dw obtain w ws where d: "dropWhile isSpace ?r = w # ws" and ww: "isWordChar w"
    by (auto split: list.splits)
  from tw have "?r \<noteq> []" by auto
  then have len: "length kw < length s" by simp
  then have dr: "drop (length kw) (s @ u) = ?r @ u" by simp
  from takeWhile_nonempty_append [OF tw, of u] dropWhile_Cons_append [OF d, of u]
  have "takeWhile isSpace (?r @ u) \<noteq> []" and "dropWhile isSpace (?r @ u) = w # ws @ u"
    by simp_all
  with ww dr startsWith_append [OF sw, of "toLowerCase u"] show ?thesis
    by (simp add: keywordSpaceWordAt_def Let_def toLowerCase_append)
qed

lemma startsWith_length: "startsWith s t \<Longrightarrow> length t \<le> length s"
  by (induction s t rule: startsWith.induct) auto

lemma takeWhile_append_prefix: "\<exists>v. takeWhile Q (r @ u) = takeWhile Q r @ v"
  by (induction r) auto

lemma keywordDotStarAt_append:
  "keywordDotStarAt kw lit s \<Longrightarrow> keywordDotStarAt kw lit (s @ u)"
proof -
  assume a: "keywordDotStarAt kw lit s"
  let ?r = "drop (length kw) s"
  from a have sw: "startsWith (toLowerCase s) kw"
    and inc: "str_includes (toLowerCase (takeWhile isDotChar ?r)) lit"
    by (simp_all add: keywordDotStarAt_def)
  from startsWith_length [OF sw] have "length kw \<le> length s"
    by (simp add: toLowerCase_def)
  then have dr: "drop (length kw) (s @ u) = ?r @ u" by simp
  obtain v where v: "takeWhile isDotChar (?r @ u) = takeWhile isDotChar ?r @ v"
    using takeWhile_append_prefix by blast
  from str_includes_append [OF inc, of "toLowerCase v"]
  have "str_includes (toLowerCase (takeWhile isDotChar (?r @ u))) lit"
    by (simp add: v toLowerCase_append)
  with dr startsWith_append [OF sw, of "toLowerCase u"] show ?thesis
    by (simp add: keywordDotStarAt_def toLowerCase_append)
qed

lemma structuralPatterns_append:
  "P \<in> set structuralPatterns \<Longrightarrow> P s \<Longrightarrow> P (s @ u)"
  unfolding structuralPatterns_def
  using matchesSomewhere_append [of "keywordSpaceWordAt kw" for kw, OF keywordSpaceWordAt_append]
    matchesSomewhere_append [of "keywordDotStarAt kw lit" for kw lit, OF keywordDotStarAt_append]
  by auto

lemma filter_length_mono:
  "(\<And>x. x \<in> set xs \<Longrightarrow> P x \<Longrightarrow> Q x) \<Longrightarrow> length (filter P xs) \<le> length (filter Q xs)"
  by (induction xs) auto

lemma structuralMatches_append:
  "length (filter (\<lambda>pattern. pattern s) structuralPatterns)
     \<le> length (filter (\<lambda>pattern. pattern (s @ u)) structuralPatterns)"
  by (rule filter_length_mono) (rule structuralPatterns_append)

lemma keywordStep_complexity:
  "v_complexity (keywordStep np v (level, kws)) =
     (if (\<exists>kw \<in> set kws. str_includes np kw) then
        (if level = ''simple'' then v_complexity v
         else if level = ''moderate'' then MODERATE
         else if level = ''complex'' then COMPLEX
         else if level = ''multiFile'' then MULTI_FILE
         else v_complexity v)
      else v_complexity v)"
  by (auto simp add: keywordStep_def Let_def filter_empty_conv)

lemma keywordLoop_complexity:
  "v_complexity (keywordLoop np v) =
     (if levelMatches np ''multiFile'' then MULTI_FILE
      else if levelMatches np ''complex'' then COMPLEX
      else if levelMatches np ''moderate'' then MODERATE
      else v_complexity v)"
proof -
  obtain k1 k2 k3 k4 where ks: "complexityKeywords =
      [(''simple'', k1), (''moderate'', k2), (''complex'', k3), (''multiFile'', k4)]"
    by (simp add: complexityKeywords_def)
  have m: "levelMatches np ''multiFile'' = (\<exists>kw \<in> set k4. str_includes np kw)"
     "levelMatches np ''complex'' = (\<exists>kw \<in> set k3. str_includes np kw)"
     "levelMatches np ''moderate'' = (\<exists>kw \<in> set k2. str_includes np kw)"
    by (simp_all add: levelMatches_def ks)
  show ?thesis
    unfolding keywordLoop_def ks m
    by (simp add: keywordStep_complexity)
qed

lemma fileSizeStep_complexity:
  "v_complexity (fileSizeStep n v) =
     (if n > 50000 \<and> v_complexity v = SIMPLE then MODERATE else v_complexity v)"
  by (simp add: fileSizeStep_def Let_def)

lemma lineCountStep_complexity: "v_complexity (lineCountStep n v) = v_complexity v"
  by (simp add: lineCountStep_def)

lemma fileTypeStep_complexity:
  "v_complexity (fileTypeStep e v) =
     (if e \<in> set complexFileTypes \<and> v_complexity v = SIMPLE then MODERATE else v_complexity v)"
  by (simp add: fileTypeStep_def Let_def)

lemma structuralStep_complexity:
  "v_complexity (structuralStep p v) =
     (if 2 < length (filter (\<lambda>pattern. pattern p) structuralPatterns) \<and> v_complexity v = SIMPLE
      then MODERATE else v_complexity v)"
  by (simp add: structuralStep_def Let_def)

lemma promptLengthStep_complexity: "v_complexity (promptLengthStep p v) = v_complexity v"
  by (simp add: promptLengthStep_def)

lemma evidenceStep_complexity: "v_complexity (evidenceStep v) = v_complexity v"
  by (simp add: evidenceStep_def)

lemma performComplexityAnalysis_complexity:
  "complexity (fst (performComplexityAnalysis cfg cache prompt filePath fileContent)) =
     (if keywordComplexity prompt = SIMPLE \<and> escalated prompt filePath fileContent
      then MODERATE else keywordComplexity prompt)"
  unfolding performComplexityAnalysis_def Let_def
  by (simp add: split_beta evidenceStep_complexity promptLengthStep_complexity
      structuralStep_complexity fileTypeStep_complexity lineCountStep_complexity
      fileSizeStep_complexity keywordLoop_complexity escalated_def keywordComplexity_def)

lemma levelMatches_append:
  "levelMatches (toLowerCase p) level \<Longrightarrow> levelMatches (toLowerCase (p @ s)) level"
  by (auto simp: levelMatches_def toLowerCase_append split: option.splits
      intro: str_includes_append)

lemma keywordComplexity_append:
  "tier (keywordComplexity p) \<le> tier (keywordComplexity (p @ s))"
  using levelMatches_append [of p _ s]
  by (auto simp: keywordComplexity_def)

lemma escalated_append:
  "escalated p filePath fileContent \<Longrightarrow> escalated (p @ s) filePath fileContent"
  using structuralMatches_append [of p s]
  by (auto simp: escalated_def)

lemma keywordComplexity_level:
  "levelMatches (toLowerCase p) level \<Longrightarrow> levelTier level \<le> tier (keywordComplexity p)"
  by (auto simp: keywordComplexity_def)

lemma complexityKeywords_entry:
  "(level, keywords) \<in> set complexityKeywords \<Longrightarrow> map_of complexityKeywords level = Some keywords"
  by (auto simp: complexityKeywords_def)

text \<open>
  C4. Appending any text (in particular further complexity keywords) to a prompt never
  lowers the tier that \<^verbatim>\<open>performComplexityAnalysis\<close> returns for the same file; and within
  one pass the returned tier is at least the tier of every keyword level that has a
  keyword in the prompt, so a match of a lower level never undoes a higher one.
\<close>

theorem complexity_monotone_in_appended_keywords:
  "tier (complexity (fst (performComplexityAnalysis cfg cache p filePath fileContent)))
     \<le> tier (complexity (fst (performComplexityAnalysis cfg cache' (p @ s) filePath fileContent))) \<and>
   (\<forall>(level, keywords) \<in> set complexityKeywords.
      (\<exists>keyword \<in> set keywords. str_includes (toLowerCase p) keyword) \<longrightarrow>
      levelTier level
        \<le> tier (complexity (fst (performComplexityAnalysis cfg cache p filePath fileContent))))"
proof (intro conjI ballI)
  let ?k = "keywordComplexity p" and ?k' = "keywordComplexity (p @ s)"
  have k: "tier ?k \<le> tier ?k'" by (rule keywordComplexity_append)
  show "tier (complexity (fst (performComplexityAnalysis cfg cache p filePath fileContent)))
     \<le> tier (complexity (fst (performComplexityAnalysis cfg cache' (p @ s) filePath fileContent)))"
  proof (cases "?k = SIMPLE \<and> escalated p filePath fileContent")
    case True
    then have "escalated (p @ s) filePath fileContent" by (simp add: escalated_append)
    with True k show ?thesis
      by (cases ?k') (simp_all add: performComplexityAnalysis_complexity)
  next
    case False
    with k show ?thesis
      by (cases ?k; cases ?k') (simp_all add: performComplexityAnalysis_complexity)
  qed
next
  fix entry
  assume e: "entry \<in> set complexityKeywords"
  obtain level kws where entry: "entry = (level, kws)" by (cases entry)
  show "case entry of (level, keywords) \<Rightarrow>
      (\<exists>keyword \<in> set keywords. str_includes (toLowerCase p) keyword) \<longrightarrow>
      levelTier level
        \<le> tier (complexity (fst (performComplexityAnalysis cfg cache p filePath fileContent)))"
    unfolding entry prod.case
  proof
    assume "\<exists>keyword \<in> set kws. str_includes (toLowerCase p) keyword"
    with e have "levelMatches (toLowerCase p) level"
      by (simp add: levelMatches_def entry complexityKeywords_entry)
    then have "levelTier level \<le> tier (keywordComplexity p)"
      by (rule keywordComplexity_level)
    then show "levelTier level
        \<le> tier (complexity (fst (performComplexityAnalysis cfg cache p filePath fileContent)))"
      by (cases "keywordComplexity p") (simp_all add: performComplexityAnalysis_complexity)
  qed
qed

theorem complexity_monotone_in_appended_keywords_witness:
  "(''moderate'', [''refactor'', ''optimize'', ''restructure'', ''add function'', ''modify logic''])
     \<in> set complexityKeywords \<and>
   str_includes (toLowerCase ''Refactor it'') ''refactor'' \<and>
   levelTier ''moderate''
     \<le> tier (complexity (fst (performComplexityAnalysis
          \<lparr> complexityThreshold = ThresholdModerate, modelStrategy = PrefBalanced,
             enableValidation = True, maxRetries = 3 \<rparr> [] ''Refactor it'' ''a.ts'' ''x''))) \<and>
   tier (complexity (fst (performComplexityAnalysis
          \<lparr> complexityThreshold = ThresholdModerate, modelStrategy = PrefBalanced,
             enableValidation = True, maxRetries = 3 \<rparr> [] ''Refactor it'' ''a.ts'' ''x'')))
     \<le> tier (complexity (fst (performComplexityAnalysis
          \<lparr> complexityThreshold = ThresholdModerate, modelStrategy = PrefBalanced,
             enableValidation = True, maxRetries = 3 \<rparr> []
          (''Refactor it'' @ '' across files'') ''a.ts'' ''x'')))"
proof -
  let ?cfg = "\<lparr> complexityThreshold = ThresholdModerate, modelStrategy = PrefBalanced,
             enableValidation = True, maxRetries = 3 \<rparr>"
  let ?kws = "[''refactor'', ''optimize'', ''restructure'', ''add function'', ''modify logic'']"
  have e: "(''moderate'', ?kws) \<in> set complexityKeywords"
    by (simp add: complexityKeywords_def)
  have l: "toLowerCase ''Refactor it'' = ''refactor it''"
    by (simp add: toLowerCase_def lower_char_def upperChars_def lowerChars_def)
  have i: "str_includes (toLowerCase ''Refactor it'') ''refactor''"
    unfolding l by simp
  then have m: "\<exists>keyword \<in> set ?kws. str_includes (toLowerCase ''Refactor it'') keyword"
    by (intro bexI [of _ "''refactor''"]) simp_all
  note t = complexity_monotone_in_appended_keywords
      [of ?cfg "[]" "''Refactor it''" "''a.ts''" "''x''" "[]" "'' across files''"]
  from t have mono: "tier (complexity (fst (performComplexityAnalysis ?cfg [] ''Refactor it'' ''a.ts'' ''x'')))
     \<le> tier (complexity (fst (performComplexityAnalysis ?cfg []
          (''Refactor it'' @ '' across files'') ''a.ts'' ''x'')))"
    by (rule conjunct1)
  from t e m have "levelTier ''moderate''
     \<le> tier (complexity (fst (performComplexityAnalysis ?cfg [] ''Refactor it'' ''a.ts'' ''x'')))"
    by blast
  with e i mono show ?thesis by blast
qed

section \<open>Properties of the optimized edit\<close>

lemma shouldUseTurboEdits_tier:
  "shouldUseTurboEdits cfg c \<longleftrightarrow> leastAcceptedTier (complexityThreshold cfg) \<le> tier c"
  by (cases "complexityThreshold cfg"; cases c; simp)

text \<open>
  C10. \<^verbatim>\<open>generateOptimizedEdit\<close> throws exactly when the tier of the classified complexity
  is below the least tier the configured threshold accepts (\<open>simple\<close>: every tier,
  \<open>moderate\<close>: all but SIMPLE, \<open>all\<close>: COMPLEX and MULTI_FILE only), and the error names
  that complexity and threshold; otherwise it returns an edit.
\<close>

theorem generateOptimizedEdit_throws_iff_below_threshold:
  "(case fst (generateOptimizedEdit templates cfg st prompt filePath fileContent context) of
      Inl e \<Rightarrow>
        e = BelowThreshold
              (complexity (fst (estimateEditComplexity cfg st prompt filePath fileContent)))
              (complexityThreshold cfg) \<and>
        tier (complexity (fst (estimateEditComplexity cfg st prompt filePath fileContent)))
          < leastAcceptedTier (complexityThreshold cfg)
    | Inr edit \<Rightarrow>
        leastAcceptedTier (complexityThreshold cfg)
          \<le> tier (complexity (fst (estimateEditComplexity cfg st prompt filePath fileContent))))"
proof (cases "estimateEditComplexity cfg st prompt filePath fileContent")
  case (Pair analysis st1)
  show ?thesis
  proof (cases "shouldUseTurboEdits cfg (complexity analysis)")
    case True
    then have "leastAcceptedTier (complexityThreshold cfg) \<le> tier (complexity analysis)"
      by (simp only: shouldUseTurboEdits_tier)
    with True Pair show ?thesis
      by (simp add: generateOptimizedEdit_def Let_def split: prod.splits)
  next
    case False
    then have "tier (complexity analysis) < leastAcceptedTier (complexityThreshold cfg)"
      by (simp only: shouldUseTurboEdits_tier not_le)
    with False Pair show ?thesis
      by (simp add: generateOptimizedEdit_def Let_def split: prod.splits)
  qed
qed

section \<open>Properties of the dependency graph\<close>

lemma has_iff: "has m k \<longleftrightarrow> k \<in> fst ` set m"
  by (simp add: has_def map_of_eq_None_iff)

lemma set_update_subset: "set (AList.update k v al) \<subseteq> insert (k, v) (set al)"
  by (induction al) auto

lemma nodeDependencies_known:
  "set (nodeDependencies cwd basePath ns filePath node) \<subseteq> {d. has ns d}"
proof -
  have "set (foldl (\<lambda>dependencies importPath.
              (case resolveImportPath cwd importPath filePath basePath ns of
                 None \<Rightarrow> dependencies
               | Some resolvedPath \<Rightarrow>
                   (if resolvedPath \<noteq> [] \<and> has ns resolvedPath
                    then dependencies @ [resolvedPath] else dependencies)))
            acc imps) \<subseteq> {d. has ns d}"
    if "set acc \<subseteq> {d. has ns d}" for acc imps
    using that by (induction imps arbitrary: acc) (auto split: option.splits)
  then show ?thesis by (simp add: nodeDependencies_def)
qed

lemma buildGraphEdges_fold_known:
  assumes "\<forall>(file, dependencies) \<in> set es. set dependencies \<subseteq> {d. has ns d}"
  shows "\<forall>(file, dependencies) \<in>
           set (foldl (\<lambda>es (filePath, node).
                  AList.update filePath (nodeDependencies cwd basePath ns filePath node) es)
                es entries).
           set dependencies \<subseteq> {d. has ns d}"
  using assms
proof (induction entries arbitrary: es)
  case Nil
  then show ?case by simp
next
  case (Cons entry entries)
  obtain filePath node where entry: "entry = (filePath, node)" by (cases entry)
  let ?es = "AList.update filePath (nodeDependencies cwd basePath ns filePath node) es"
  have "\<forall>(file, dependencies) \<in> set ?es. set dependencies \<subseteq> {d. has ns d}"
    using Cons.prems set_update_subset [of filePath _ es] nodeDependencies_known [of cwd basePath ns filePath node]
    by fastforce
  from Cons.IH [OF this] show ?case by (simp add: entry)
qed

lemma buildGraphEdges_known:
  assumes "\<forall>(file, dependencies) \<in> set (edges graph). set dependencies \<subseteq> {d. has (nodes graph) d}"
  shows "\<forall>(file, dependencies) \<in> set (edges (buildGraphEdges cwd graph basePath)).
           \<forall>dep \<in> set dependencies. dep \<in> fst ` set (nodes (buildGraphEdges cwd graph basePath))"
  using buildGraphEdges_fold_known [OF assms, of cwd basePath "nodes graph"]
  by (fastforce simp: buildGraphEdges_def has_iff)

lemma calculateEdgeWeights_same:
  "edges (calculateEdgeWeights graph) = edges graph"
  "nodes (calculateEdgeWeights graph) = nodes graph"
  by (simp_all add: calculateEdgeWeights_def Let_def)

text \<open>
  C3. In every graph \<^verbatim>\<open>buildDependencyGraph\<close> returns, each target in each edge list is
  a key of the node map: an import that resolves to no known node adds nothing.
\<close>

theorem buildDependencyGraph_no_dangling_edges:
  assumes "buildDependencyGraph env appPath = graph"
  shows "\<forall>(file, dependencies) \<in> set (edges graph).
           \<forall>dep \<in> set dependencies. dep \<in> fst ` set (nodes graph)"
proof -
  define files where "files = findSourceFiles env appPath"
  define g1 where "g1 = \<lparr> nodes =
      foldl (\<lambda>ns filePath.
               (case analyzeFile env filePath appPath of
                  None \<Rightarrow> ns
                | Some node \<Rightarrow> AList.update filePath node ns)) [] files,
      edges = [], weights = [] \<rparr>"
  have g1: "edges g1 = []" by (simp add: g1_def)
  from assms
  have graph: "graph = calculateEdgeWeights (buildGraphEdges (workingDirectory env) g1 appPath)"
    by (simp add: buildDependencyGraph_def Let_def g1_def files_def)
  from g1 have "\<forall>(file, dependencies) \<in> set (edges g1). set dependencies \<subseteq> {d. has (nodes g1) d}"
    by simp
  from buildGraphEdges_known [OF this] show ?thesis
    unfolding graph calculateEdgeWeights_same .
qed

theorem buildDependencyGraph_no_dangling_edges_witness:
  "\<exists>graph.
     buildDependencyGraph
       \<lparr> findSourceFiles = (\<lambda>root. [''src/index.ts'', ''src/util.ts'']),
         analyzeFile = (\<lambda>filePath root.
           if filePath = ''src/index.ts''
           then Some \<lparr> node_path = ''src/index.ts'', node_imports = [''./util'', ''react''],
                       node_exports = [], node_size = 10, node_lastModified = 0 \<rparr>
           else Some \<lparr> node_path = ''src/util.ts'', node_imports = [],
                       node_exports = [], node_size = 10, node_lastModified = 0 \<rparr>),
         workingDirectory = ''/'' \<rparr> ''/app'' = graph \<and>
     (''src/index.ts'', [''src/util.ts'']) \<in> set (edges graph) \<and>
     ''src/util.ts'' \<in> set [''src/util.ts''] \<and>
     ''src/util.ts'' \<in> fst ` set (nodes graph)"
proof -
  let ?n0 = "\<lparr> node_path = ''src/index.ts'', node_imports = [''./util'', ''react''],
                node_exports = [], node_size = 10, node_lastModified = 0 \<rparr>"
  let ?n1 = "\<lparr> node_path = ''src/util.ts'', node_imports = [],
                node_exports = [], node_size = 10, node_lastModified = 0 \<rparr>"
  let ?env = "\<lparr> findSourceFiles = (\<lambda>root. [''src/index.ts'', ''src/util.ts'']),
         analyzeFile = (\<lambda>filePath root. if filePath = ''src/index.ts'' then Some ?n0 else Some ?n1),
         workingDirectory = ''/'' \<rparr>"
  let ?g1 = "\<lparr> nodes = [(''src/index.ts'', ?n0), (''src/util.ts'', ?n1)], edges = [],
               weights = [] \<rparr>"
  let ?graph = "calculateEdgeWeights (buildGraphEdges ''/'' ?g1 ''/app'')"
  have b: "buildDependencyGraph ?env ''/app'' = ?graph"
    by (simp add: buildDependencyGraph_def)
  have "edges (buildGraphEdges ''/'' ?g1 ''/app'')
          = [(''src/index.ts'', [''src/util.ts'']), (''src/util.ts'', [])]"
    by code_simp
  then have e: "(''src/index.ts'', [''src/util.ts'']) \<in> set (edges ?graph)"
    by (simp add: calculateEdgeWeights_same)
  have m: "''src/util.ts'' \<in> set [''src/util.ts'']" by simp
  from buildDependencyGraph_no_dangling_edges [OF b] e m
  have "''src/util.ts'' \<in> fst ` set (nodes ?graph)" by blast
  with b e m show ?thesis by blast
qed

section \<open>Properties of the breadth-first traversal\<close>

lemma bfsLoop_distinct:
  "distinct deps \<Longrightarrow> set deps \<subseteq> vis \<Longrightarrow>
     distinct (bfsLoop es maxDepth queue vis deps)"
proof (induction es maxDepth queue vis deps rule: bfsLoop.induct)
  case (1 es maxDepth vis deps)
  then show ?case by simp
next
  case (2 es maxDepth f depth queue vis deps)
  show ?case
  proof (cases "f \<in> vis \<or> int depth > maxDepth")
    case True
    with 2 show ?thesis by simp
  next
    case False
    let ?deps = "if depth > 0 then deps @ [f] else deps"
    from False "2.prems" have d: "distinct ?deps" and s: "set ?deps \<subseteq> insert f vis"
      by auto
    from "2.IH"(2) [OF False d s] False show ?thesis by simp
  qed
qed

lemma bfsLoop_not_visited_before:
  "start \<in> vis \<Longrightarrow> start \<notin> set deps \<Longrightarrow>
     start \<notin> set (bfsLoop es maxDepth queue vis deps)"
proof (induction es maxDepth queue vis deps rule: bfsLoop.induct)
  case (1 es maxDepth vis deps)
  then show ?case by simp
next
  case (2 es maxDepth f depth queue vis deps)
  show ?case
  proof (cases "f \<in> vis \<or> int depth > maxDepth")
    case True
    with 2 show ?thesis by simp
  next
    case False
    let ?deps = "if depth > 0 then deps @ [f] else deps"
    from False "2.prems" have v: "start \<in> insert f vis" and d: "start \<notin> set ?deps"
      by auto
    from "2.IH"(2) [OF False v d] False show ?thesis by simp
  qed
qed

lemma bfsLoop_negative_depth:
  "maxDepth < 0 \<Longrightarrow> bfsLoop es maxDepth queue vis deps = deps"
  by (induction queue) auto

lemma bfsLoop_from_start:
  "distinct (bfsLoop es maxDepth [(start, 0)] {} []) \<and>
   start \<notin> set (bfsLoop es maxDepth [(start, 0)] {} [])"
proof (cases "maxDepth < 0")
  case True
  then show ?thesis by (simp add: bfsLoop_negative_depth)
next
  case False
  then show ?thesis
    by (simp add: bfsLoop_distinct bfsLoop_not_visited_before)
qed

text \<open>
  C9. For every graph, cyclic or not, every start file and every depth bound, the list
  returned by \<^verbatim>\<open>findTransitiveDependencies\<close>, and by \<^verbatim>\<open>getDependenciesAtDepth\<close>, has no
  duplicates and does not contain the start file.
\<close>

theorem transitive_dependencies_distinct_without_start:
  "distinct (findTransitiveDependencies graph startFile maxDepth) \<and>
   startFile \<notin> set (findTransitiveDependencies graph startFile maxDepth) \<and>
   distinct (getDependenciesAtDepth startFile graph maxDepth) \<and>
   startFile \<notin> set (getDependenciesAtDepth startFile graph maxDepth)"
  using bfsLoop_from_start [of "edges graph" maxDepth startFile]
  by (simp add: findTransitiveDependencies_def getDependenciesAtDepth_def)

section \<open>Properties of the token budget\<close>

lemma selectStep_budget:
  assumes "sel_totalTokens v = sum_list (map tokensOf (sel_files v))"
    and "rat_of_nat (sel_totalTokens v) \<le> limit"
    and "est_tokens estimate = tokensOf (est_file estimate)"
  shows "sel_totalTokens (selectStep limit v estimate)
           = sum_list (map tokensOf (sel_files (selectStep limit v estimate))) \<and>
         rat_of_nat (sel_totalTokens (selectStep limit v estimate)) \<le> limit"
  using assms by (simp add: selectStep_def Let_def)

lemma selectLoop_budget:
  assumes "sel_totalTokens v = sum_list (map tokensOf (sel_files v))"
    and "rat_of_nat (sel_totalTokens v) \<le> limit"
    and "\<forall>estimate \<in> set estimates. est_tokens estimate = tokensOf (est_file estimate)"
  shows "sel_totalTokens (foldl (selectStep limit) v estimates)
           = sum_list (map tokensOf (sel_files (foldl (selectStep limit) v estimates))) \<and>
         rat_of_nat (sel_totalTokens (foldl (selectStep limit) v estimates)) \<le> limit"
  using assms
proof (induction estimates arbitrary: v)
  case Nil
  then show ?case by simp
next
  case (Cons estimate estimates)
  from Cons.prems have e: "est_tokens estimate = tokensOf (est_file estimate)" by simp
  from selectStep_budget [of v tokensOf limit estimate, OF Cons.prems(1) Cons.prems(2) e]
  have "sel_totalTokens (selectStep limit v estimate)
           = sum_list (map tokensOf (sel_files (selectStep limit v estimate)))"
    and "rat_of_nat (sel_totalTokens (selectStep limit v estimate)) \<le> limit"
    by simp_all
  from Cons.IH [OF this] Cons.prems(3) show ?case by simp
qed

text \<open>
  C1. For every list of candidate files and every budget \<open>limit \<ge> 0\<close>, the total that
  \<^verbatim>\<open>optimizeContextForTokens\<close> reports is the sum of the token estimates of the files
  it selected, and it does not exceed the budget.
\<close>

theorem optimizeContextForTokens_within_budget:
  assumes "0 \<le> limit"
  shows "rat_of_nat (totalTokens (optimizeContextForTokens env candidateFiles limit)) \<le> limit \<and>
         totalTokens (optimizeContextForTokens env candidateFiles limit)
           = sum_list (map (estimateFileTokens env)
               (selectedFiles (optimizeContextForTokens env candidateFiles limit)))"
proof (cases "length candidateFiles = 0")
  case True
  with assms show ?thesis by (simp add: optimizeContextForTokens_def)
next
  case False
  let ?ests = "map (\<lambda>file. \<lparr> est_file = file,
                              est_tokens = estimateFileTokens env file,
                              est_relevance = calculateFileRelevance env file \<rparr>)
                 candidateFiles"
  let ?sorted = "sort_key (\<lambda>e. - (est_relevance e / rat_of_nat (max (est_tokens e) 1))) ?ests"
  let ?v0 = "\<lparr> sel_files = [], sel_totalTokens = 0, sel_totalRelevance = 0,
                     sel_maxPossibleRelevance = 0 \<rparr>"
  have a: "\<forall>estimate \<in> set ?sorted.
             est_tokens estimate = estimateFileTokens env (est_file estimate)"
    by auto
  have b: "sel_totalTokens ?v0 = sum_list (map (estimateFileTokens env) (sel_files ?v0))"
    by simp
  from assms have c: "rat_of_nat (sel_totalTokens ?v0) \<le> limit" by simp
  from selectLoop_budget [OF b c a] False show ?thesis
    by (simp add: optimizeContextForTokens_def Let_def)
qed

theorem optimizeContextForTokens_within_budget_witness:
  "(0::rat) \<le> 10 \<and>
   rat_of_nat (totalTokens (optimizeContextForTokens
      \<lparr> analyzerEnv = \<lparr> findSourceFiles = (\<lambda>root. []), analyzeFile = (\<lambda>filePath root. None),
                         workingDirectory = ''/'' \<rparr>,
        extractEntities = (\<lambda>prompt. \<lparr> ext_entities = [], ext_keywords = [], ext_fileTypes = [],
                                       ext_concepts = [] \<rparr>),
        readFile = (\<lambda>filePath. if filePath = ''a.ts'' then Some ''12345678'' else None),
        statSize = (\<lambda>filePath. None) \<rparr> [''b.ts'', ''a.ts''] 10)) \<le> 10 \<and>
   selectedFiles (optimizeContextForTokens
      \<lparr> analyzerEnv = \<lparr> findSourceFiles = (\<lambda>root. []), analyzeFile = (\<lambda>filePath root. None),
                         workingDirectory = ''/'' \<rparr>,
        extractEntities = (\<lambda>prompt. \<lparr> ext_entities = [], ext_keywords = [], ext_fileTypes = [],
                                       ext_concepts = [] \<rparr>),
        readFile = (\<lambda>filePath. if filePath = ''a.ts'' then Some ''12345678'' else None),
        statSize = (\<lambda>filePath. None) \<rparr> [''b.ts'', ''a.ts''] 10) = [''a.ts'']"
proof -
  let ?env = "\<lparr> analyzerEnv = \<lparr> findSourceFiles = (\<lambda>root. []), analyzeFile = (\<lambda>filePath root. None),
                         workingDirectory = ''/'' \<rparr>,
        extractEntities = (\<lambda>prompt. \<lparr> ext_entities = [], ext_keywords = [], ext_fileTypes = [],
                                       ext_concepts = [] \<rparr>),
        readFile = (\<lambda>filePath. if filePath = ''a.ts'' then Some ''12345678'' else None),
        statSize = (\<lambda>filePath. None) \<rparr>"
  have h: "(0::rat) \<le> 10" by simp
  have ta: "estimateFileTokens ?env ''a.ts'' = 2" by (simp add: estimateFileTokens_def)
  have tb: "estimateFileTokens ?env ''b.ts'' = 1000" by (simp add: estimateFileTokens_def)
  have e: "extname ''a.ts'' = ''.ts''" "extname ''b.ts'' = ''.ts''"
    by (simp_all add: extname_def basename_def)
  have l: "toLowerCase ''.ts'' = ''.ts''"
    by (simp add: toLowerCase_def lower_char_def upperChars_def lowerChars_def)
  have ra: "calculateFileRelevance ?env ''a.ts'' = 1 / 2"
    by (simp add: calculateFileRelevance_def e l getExtensionScore_def extensionScores_def
        getSizeScore_def)
  have rb: "calculateFileRelevance ?env ''b.ts'' = 1 / 2"
    by (simp add: calculateFileRelevance_def e l getExtensionScore_def extensionScores_def
        getSizeScore_def)
  have s: "selectedFiles (optimizeContextForTokens ?env [''b.ts'', ''a.ts''] 10) = [''a.ts'']"
    by (simp add: optimizeContextForTokens_def ta tb ra rb selectStep_def Let_def)
  from optimizeContextForTokens_within_budget [OF h, of ?env "[''b.ts'', ''a.ts'']"] h s
  show ?thesis by blast
qed

section \<open>Properties of the analysis and its fallback\<close>























section \<open>Properties of the relevance score\<close>

lemma foldl_score_nonneg:
  assumes "\<And>v x. 0 \<le> r_score v \<Longrightarrow> 0 \<le> r_score (f v x)"
    and "0 \<le> r_score v"
  shows "0 \<le> r_score (foldl f v xs)"
  using assms(2) by (induction xs arbitrary: v) (simp_all add: assms(1))

lemma entityStep_nonneg: "0 \<le> r_score v \<Longrightarrow> 0 \<le> r_score (entityStep fn ct v x)"
  by (simp add: entityStep_def Let_def)

lemma fileTypeStep'_nonneg: "0 \<le> r_score v \<Longrightarrow> 0 \<le> r_score (fileTypeStep' fe fn v x)"
  by (simp add: fileTypeStep'_def)

lemma conceptStep_nonneg: "0 \<le> r_score v \<Longrightarrow> 0 \<le> r_score (conceptStep fn ct v x)"
  by (simp add: conceptStep_def Let_def)

lemma keywordScoreStep_nonneg:
  "0 \<le> r_score v \<Longrightarrow> 0 \<le> r_score (keywordScoreStep fn ct v x)"
  by (simp add: keywordScoreStep_def Let_def)

lemma foldl_bonus_nonneg:
  fixes acc :: rat
  assumes "\<forall>(pattern, bonus) \<in> set table. 0 \<le> bonus" and "0 \<le> acc"
  shows "0 \<le> foldl (\<lambda>score (pattern, bonus). if P pattern then score + bonus else score) acc table"
  using assms by (induction table arbitrary: acc) auto

lemma foldl_dir_nonneg:
  fixes acc :: rat
  assumes "0 \<le> acc"
  shows "0 \<le> foldl (\<lambda>score dir. if P dir then score + 3 / 10 else score) acc dirs"
  using assms by (induction dirs arbitrary: acc) auto

lemma calculateStructuralScore_nonneg: "0 \<le> calculateStructuralScore filePath extraction"
proof -
  have "\<forall>(pattern, bonus) \<in> set structuralPatternBonuses. 0 \<le> bonus"
    by (simp add: structuralPatternBonuses_def)
  then show ?thesis
    unfolding calculateStructuralScore_def Let_def
    by (intro foldl_dir_nonneg foldl_bonus_nonneg) simp_all
qed

lemma calculateTextSimilarity_nonneg: "0 \<le> calculateTextSimilarity text1 text2"
  by (simp add: calculateTextSimilarity_def Let_def)

text \<open>
  C6. For every file path, file content (readable or not), entity extraction and
  prompt, the relevance score that \<^verbatim>\<open>analyzeFileRelevance\<close> returns is at least 0 and at
  most 10.
\<close>

theorem relevanceScore_between_0_and_10:
  "0 \<le> relevanceScore (analyzeFileRelevance rd path extraction originalPrompt) \<and>
   relevanceScore (analyzeFileRelevance rd path extraction originalPrompt) \<le> 10"
proof -
  define content where "content = (case rd path of Some c \<Rightarrow> c | None \<Rightarrow> [])"
  define fn where "fn = toLowerCase (basename path)"
  define ct where "ct = toLowerCase content"
  define v4 where "v4 =
    foldl (keywordScoreStep fn ct)
      (foldl (conceptStep fn ct)
         (foldl (fileTypeStep' (drop 1 (extname path)) (basename path))
            (foldl (entityStep fn ct)
               \<lparr> r_score = 0, r_matched = [], r_matchType = Structural \<rparr>
               (ext_entities extraction))
            (ext_fileTypes extraction))
         (ext_concepts extraction))
      (ext_keywords extraction)"
  define s5 where "s5 = r_score v4 + calculateStructuralScore path extraction"
  define s6 where "s6 = (if content \<noteq> []
                then s5 + calculateTextSimilarity (toLowerCase originalPrompt) ct * (1 / 2)
                else s5)"
  define s7 where "s7 = (if content \<noteq> [] then
                  (if rat_of_nat (length content) / 1024 > 100 then s6 * (8 / 10)
                   else if rat_of_nat (length content) / 1024 < 1 / 2 then s6 * (9 / 10) else s6)
                else s6)"
  have score: "relevanceScore (analyzeFileRelevance rd path extraction originalPrompt) = min s7 10"
    by (simp add: analyzeFileRelevance_def Let_def s7_def s6_def s5_def v4_def ct_def fn_def
        content_def)
  have "0 \<le> r_score v4"
    unfolding v4_def
    by (intro foldl_score_nonneg keywordScoreStep_nonneg conceptStep_nonneg
        fileTypeStep'_nonneg entityStep_nonneg) simp_all
  then have "0 \<le> s5"
    using calculateStructuralScore_nonneg [of path extraction] by (simp add: s5_def)
  then have "0 \<le> s6"
    using calculateTextSimilarity_nonneg [of "toLowerCase originalPrompt" ct]
    by (simp add: s6_def)
  then have "0 \<le> s7" by (simp add: s7_def)
  then show ?thesis by (simp add: score)
qed

section \<open>Properties of the edit validator\<close>

lemma rule_names:
  "rule_name (createSyntaxValidationRule env e) = ''syntax''"
  "rule_name createStructureValidationRule = ''structure''"
  "rule_name createLengthValidationRule = ''length''"
  "rule_name (createImportExportValidationRule env e) = ''imports''"
  "rule_name (createStyleConsistencyRule env) = ''style''"
  "rule_name (createTypeScriptValidationRule env) = ''typescript''"
  "rule_name (createJavaScriptValidationRule env) = ''javascript''"
  "rule_name (createSecurityValidationRule env) = ''security''"
  "rule_name (createPerformanceValidationRule env) = ''performance''"
  "rule_name (createAccessibilityValidationRule env e) = ''accessibility''"
  by (simp_all add: createSyntaxValidationRule_def createStructureValidationRule_def
      createLengthValidationRule_def createImportExportValidationRule_def
      createStyleConsistencyRule_def createTypeScriptValidationRule_def
      createJavaScriptValidationRule_def createSecurityValidationRule_def
      createPerformanceValidationRule_def createAccessibilityValidationRule_def)

lemma laterRuleName_rules:
  "laterRuleName (createImportExportValidationRule env e)"
  "laterRuleName (createStyleConsistencyRule env)"
  "laterRuleName (createTypeScriptValidationRule env)"
  "laterRuleName (createJavaScriptValidationRule env)"
  "laterRuleName (createSecurityValidationRule env)"
  "laterRuleName (createPerformanceValidationRule env)"
  "laterRuleName (createAccessibilityValidationRule env e)"
  by (simp_all add: laterRuleName_def rule_names)

lemma getValidationRules_shape:
  "\<exists>rest. getValidationRules env level path =
             createSyntaxValidationRule env (toLowerCase (extname path)) #
             createStructureValidationRule # createLengthValidationRule # rest \<and>
          list_all laterRuleName rest"
  by (cases level) (simp_all add: getValidationRules_def Let_def laterRuleName_rules)

lemma list_ex_later:
  "list_all laterRuleName rest \<Longrightarrow> n \<in> {''syntax'', ''structure'', ''length''} \<Longrightarrow>
     \<not> list_ex (\<lambda>(rule, result). rule_name rule = n \<and> passed result)
          (map (\<lambda>rule. (rule, g rule)) rest)"
  by (induction rest) (auto simp: laterRuleName_def)

lemma syntaxValid_eq:
  "syntaxValid (validateEdit env original edited path level elapsed) =
     passed (runRule original edited path
       (createSyntaxValidationRule env (toLowerCase (extname path))))"
proof -
  obtain rest where r: "getValidationRules env level path =
             createSyntaxValidationRule env (toLowerCase (extname path)) #
             createStructureValidationRule # createLengthValidationRule # rest"
    and l: "list_all laterRuleName rest"
    using getValidationRules_shape by blast
  from list_ex_later [OF l, of "''syntax''" "runRule original edited path"] show ?thesis
    by (simp add: validateEdit_def Let_def r rule_names)
qed

lemma structureIntact_eq:
  "structureIntact (validateEdit env original edited path level elapsed) =
     passed (runRule original edited path createStructureValidationRule)"
proof -
  obtain rest where r: "getValidationRules env level path =
             createSyntaxValidationRule env (toLowerCase (extname path)) #
             createStructureValidationRule # createLengthValidationRule # rest"
    and l: "list_all laterRuleName rest"
    using getValidationRules_shape by blast
  from list_ex_later [OF l, of "''structure''" "runRule original edited path"] show ?thesis
    by (simp add: validateEdit_def Let_def r rule_names)
qed

lemma issuesOfOtherRules_eq:
  assumes "issues (runRule original edited path createStructureValidationRule) = []"
    and "issues (runRule original edited path createLengthValidationRule) = []"
  shows "potentialIssues (validateEdit env original edited path level elapsed)
           = issuesOfOtherRules env original edited path level"
proof -
  obtain rest where r: "getValidationRules env level path =
             createSyntaxValidationRule env (toLowerCase (extname path)) #
             createStructureValidationRule # createLengthValidationRule # rest"
    and l: "list_all laterRuleName rest"
    using getValidationRules_shape by blast
  from l have f: "filter (\<lambda>rule. rule_name rule \<noteq> ''structure'' \<and> rule_name rule \<noteq> ''length'') rest
                    = rest"
    by (induction rest) (auto simp: laterRuleName_def)
  show ?thesis
    using assms
    by (simp add: validateEdit_def issuesOfOtherRules_def Let_def r rule_names f comp_def)
qed

lemma structure_same_content:
  "runRule c c path createStructureValidationRule =
     \<lparr> passed = balanced c,
       issues = (if countCharacter c (CHR ''{'') \<noteq> countCharacter c (CHR ''}'')
                 then [BracesUnbalanced] else []) @
                (if countCharacter c (CHR ''('') \<noteq> countCharacter c (CHR '')'')
                 then [ParensUnbalanced] else []) @
                (if countCharacter c (CHR ''['') \<noteq> countCharacter c (CHR '']'')
                 then [BracketsUnbalanced] else []),
       result_confidence = (if balanced c then 8 / 10 else 3 / 10) \<rparr>"
  by (simp add: runRule_def createStructureValidationRule_def structureValidator_def Let_def
      balanced_def)

lemma length_same_content:
  "runRule c c path createLengthValidationRule =
     \<lparr> passed = True, issues = [], result_confidence = 7 / 10 \<rparr>"
proof -
  have "\<not> rat_of_nat (length c) < rat_of_nat (length c) * (1 / 10)"
    by (simp add: not_less mult_left_le)
  then show ?thesis
    by (simp add: runRule_def createLengthValidationRule_def lengthValidator_def Let_def)
qed

lemma syntax_same_content:
  assumes "toLowerCase (extname path) \<notin> set [''.js'', ''.jsx'', ''.ts'', ''.tsx'', ''.py'']"
  shows "passed (runRule c c path (createSyntaxValidationRule env (toLowerCase (extname path)))) =
     (if toLowerCase (extname path) = ''.json'' then jsonParseError env c = None
      else trim c \<noteq> [])"
  using assms
  by (auto simp: runRule_def createSyntaxValidationRule_def syntaxValidator_def Let_def
      split: option.splits)

text \<open>
  C5, as amended. For every content \<open>c\<close> whose braces, parentheses and brackets are
  balanced, every file path and every validation level, \<^verbatim>\<open>validateEdit\<close> with \<open>c\<close> as
  both the original and the edited content returns \<open>structureIntact = true\<close>, and the
  structure and length rules add nothing to \<open>potentialIssues\<close>. For a file whose
  lower-cased extension is none of \<^verbatim>\<open>.json .js .jsx .ts .tsx .py\<close>, \<open>syntaxValid\<close> is true
  exactly when \<open>c\<close> is not blank, that is when \<^verbatim>\<open>c.trim()\<close> is not empty: \<open>c\<close> has a
  character that is not white space, the no-break space counting as white space; for a
  \<^verbatim>\<open>.json\<close> file, exactly when \<^verbatim>\<open>JSON.parse\<close> accepts \<open>c\<close>.
\<close>

theorem validateEdit_identical_content:
  assumes "balanced c"
  shows "structureIntact (validateEdit env c c path level elapsed) \<and>
         potentialIssues (validateEdit env c c path level elapsed)
           = issuesOfOtherRules env c c path level \<and>
         (toLowerCase (extname path) \<notin> set [''.json'', ''.js'', ''.jsx'', ''.ts'', ''.tsx'', ''.py'']
            \<longrightarrow> syntaxValid (validateEdit env c c path level elapsed) = (trim c \<noteq> [])) \<and>
         (toLowerCase (extname path) = ''.json''
            \<longrightarrow> syntaxValid (validateEdit env c c path level elapsed)
                  = (jsonParseError env c = None))"
proof (intro conjI impI)
  from assms show "structureIntact (validateEdit env c c path level elapsed)"
    by (simp add: structureIntact_eq structure_same_content)
next
  from assms have "issues (runRule c c path createStructureValidationRule) = []"
    by (simp add: structure_same_content balanced_def)
  then show "potentialIssues (validateEdit env c c path level elapsed)
           = issuesOfOtherRules env c c path level"
    by (rule issuesOfOtherRules_eq) (simp add: length_same_content)
next
  assume a: "toLowerCase (extname path) \<notin> set [''.json'', ''.js'', ''.jsx'', ''.ts'', ''.tsx'', ''.py'']"
  then have "toLowerCase (extname path) \<notin> set [''.js'', ''.jsx'', ''.ts'', ''.tsx'', ''.py'']"
    by simp
  from syntax_same_content [OF this, of c env] a
  show "syntaxValid (validateEdit env c c path level elapsed) = (trim c \<noteq> [])"
    unfolding syntaxValid_eq by simp
next
  assume a: "toLowerCase (extname path) = ''.json''"
  then have "toLowerCase (extname path) \<notin> set [''.js'', ''.jsx'', ''.ts'', ''.tsx'', ''.py'']"
    by simp
  from syntax_same_content [OF this, of c env] a
  show "syntaxValid (validateEdit env c c path level elapsed) = (jsonParseError env c = None)"
    unfolding syntaxValid_eq by simp
qed

text \<open>
  Without these conditions the flags can be false on identical content: the structure
  rule fails on a content with an unmatched brace, and the syntax rule on an empty one
  and on one that is a single no-break space.
\<close>

theorem validateEdit_identical_content_counterexample:
  "\<not> structureIntact (validateEdit
       \<lparr> jsonParseError = (\<lambda>text. None),
         importsValidator = (\<lambda>e a b p. Inr \<lparr> passed = True, issues = [], result_confidence = 1 \<rparr>),
         styleValidator = (\<lambda>a b p. Inr \<lparr> passed = True, issues = [], result_confidence = 1 \<rparr>),
         typescriptValidator = (\<lambda>a b p. Inr \<lparr> passed = True, issues = [], result_confidence = 1 \<rparr>),
         javascriptValidator = (\<lambda>a b p. Inr \<lparr> passed = True, issues = [], result_confidence = 1 \<rparr>),
         securityValidator = (\<lambda>a b p. Inr \<lparr> passed = True, issues = [], result_confidence = 1 \<rparr>),
         performanceValidator = (\<lambda>a b p. Inr \<lparr> passed = True, issues = [], result_confidence = 1 \<rparr>),
         accessibilityValidator = (\<lambda>e a b p. Inr \<lparr> passed = True, issues = [], result_confidence = 1 \<rparr>) \<rparr>
       ''{'' ''{'' ''notes.txt'' Basic 0) \<and>
   \<not> syntaxValid (validateEdit
       \<lparr> jsonParseError = (\<lambda>text. None),
         importsValidator = (\<lambda>e a b p. Inr \<lparr> passed = True, issues = [], result_confidence = 1 \<rparr>),
         styleValidator = (\<lambda>a b p. Inr \<lparr> passed = True, issues = [], result_confidence = 1 \<rparr>),
         typescriptValidator = (\<lambda>a b p. Inr \<lparr> passed = True, issues = [], result_confidence = 1 \<rparr>),
         javascriptValidator = (\<lambda>a b p. Inr \<lparr> passed = True, issues = [], result_confidence = 1 \<rparr>),
         securityValidator = (\<lambda>a b p. Inr \<lparr> passed = True, issues = [], result_confidence = 1 \<rparr>),
         performanceValidator = (\<lambda>a b p. Inr \<lparr> passed = True, issues = [], result_confidence = 1 \<rparr>),
         accessibilityValidator = (\<lambda>e a b p. Inr \<lparr> passed = True, issues = [], result_confidence = 1 \<rparr>) \<rparr>
       [] [] ''notes.txt'' Basic 0) \<and>
   \<not> syntaxValid (validateEdit
       \<lparr> jsonParseError = (\<lambda>text. None),
         importsValidator = (\<lambda>e a b p. Inr \<lparr> passed = True, issues = [], result_confidence = 1 \<rparr>),
         styleValidator = (\<lambda>a b p. Inr \<lparr> passed = True, issues = [], result_confidence = 1 \<rparr>),
         typescriptValidator = (\<lambda>a b p. Inr \<lparr> passed = True, issues = [], result_confidence = 1 \<rparr>),
         javascriptValidator = (\<lambda>a b p. Inr \<lparr> passed = True, issues = [], result_confidence = 1 \<rparr>),
         securityValidator = (\<lambda>a b p. Inr \<lparr> passed = True, issues = [], result_confidence = 1 \<rparr>),
         performanceValidator = (\<lambda>a b p. Inr \<lparr> passed = True, issues = [], result_confidence = 1 \<rparr>),
         accessibilityValidator = (\<lambda>e a b p. Inr \<lparr> passed = True, issues = [], result_confidence = 1 \<rparr>) \<rparr>
       [CHR 0xA0] [CHR 0xA0] ''notes.txt'' Basic 0)"
proof -
  have b: "\<not> balanced ''{''" by (simp add: balanced_def countCharacter_def)
  have e: "toLowerCase (extname ''notes.txt'') = ''.txt''"
    by (simp add: extname_def basename_def toLowerCase_def lower_char_def upperChars_def
        lowerChars_def)
  have t: "trim [] = []" by (simp add: trim_def)
  have t': "trim [CHR 0xA0] = []" by (simp add: trim_def isSpace_def)
  have n: "''.txt'' \<notin> set [''.js'', ''.jsx'', ''.ts'', ''.tsx'', ''.py'']" by simp
  show ?thesis
    unfolding structureIntact_eq syntaxValid_eq structure_same_content e
    using b syntax_same_content [of "''notes.txt''" "[]", unfolded e, OF n] t
      syntax_same_content [of "''notes.txt''" "[CHR 0xA0]", unfolded e, OF n] t'
    by simp
qed

theorem validateEdit_identical_content_witness:
  "balanced ''f(x) { return [x]; }'' \<and>
   toLowerCase (extname ''notes.txt'') \<notin> set [''.json'', ''.js'', ''.jsx'', ''.ts'', ''.tsx'', ''.py''] \<and>
   structureIntact (validateEdit
       \<lparr> jsonParseError = (\<lambda>text. None),
         importsValidator = (\<lambda>e a b p. Inr \<lparr> passed = True, issues = [], result_confidence = 1 \<rparr>),
         styleValidator = (\<lambda>a b p. Inr \<lparr> passed = True, issues = [], result_confidence = 1 \<rparr>),
         typescriptValidator = (\<lambda>a b p. Inr \<lparr> passed = True, issues = [], result_confidence = 1 \<rparr>),
         javascriptValidator = (\<lambda>a b p. Inr \<lparr> passed = True, issues = [], result_confidence = 1 \<rparr>),
         securityValidator = (\<lambda>a b p. Inr \<lparr> passed = True, issues = [], result_confidence = 1 \<rparr>),
         performanceValidator = (\<lambda>a b p. Inr \<lparr> passed = True, issues = [], result_confidence = 1 \<rparr>),
         accessibilityValidator = (\<lambda>e a b p. Inr \<lparr> passed = True, issues = [], result_confidence = 1 \<rparr>) \<rparr>
       ''f(x) { return [x]; }'' ''f(x) { return [x]; }'' ''notes.txt'' Enhanced 0) \<and>
   syntaxValid (validateEdit
       \<lparr> jsonParseError = (\<lambda>text. None),
         importsValidator = (\<lambda>e a b p. Inr \<lparr> passed = True, issues = [], result_confidence = 1 \<rparr>),
         styleValidator = (\<lambda>a b p. Inr \<lparr> passed = True, issues = [], result_confidence = 1 \<rparr>),
         typescriptValidator = (\<lambda>a b p. Inr \<lparr> passed = True, issues = [], result_confidence = 1 \<rparr>),
         javascriptValidator = (\<lambda>a b p. Inr \<lparr> passed = True, issues = [], result_confidence = 1 \<rparr>),
         securityValidator = (\<lambda>a b p. Inr \<lparr> passed = True, issues = [], result_confidence = 1 \<rparr>),
         performanceValidator = (\<lambda>a b p. Inr \<lparr> passed = True, issues = [], result_confidence = 1 \<rparr>),
         accessibilityValidator = (\<lambda>e a b p. Inr \<lparr> passed = True, issues = [], result_confidence = 1 \<rparr>) \<rparr>
       ''f(x) { return [x]; }'' ''f(x) { return [x]; }'' ''notes.txt'' Enhanced 0) \<and>
   balanced ''{}'' \<and>
   toLowerCase (extname ''data.json'') = ''.json'' \<and>
   syntaxValid (validateEdit
       \<lparr> jsonParseError = (\<lambda>text. None),
         importsValidator = (\<lambda>e a b p. Inr \<lparr> passed = True, issues = [], result_confidence = 1 \<rparr>),
         styleValidator = (\<lambda>a b p. Inr \<lparr> passed = True, issues = [], result_confidence = 1 \<rparr>),
         typescriptValidator = (\<lambda>a b p. Inr \<lparr> passed = True, issues = [], result_confidence = 1 \<rparr>),
         javascriptValidator = (\<lambda>a b p. Inr \<lparr> passed = True, issues = [], result_confidence = 1 \<rparr>),
         securityValidator = (\<lambda>a b p. Inr \<lparr> passed = True, issues = [], result_confidence = 1 \<rparr>),
         performanceValidator = (\<lambda>a b p. Inr \<lparr> passed = True, issues = [], result_confidence = 1 \<rparr>),
         accessibilityValidator = (\<lambda>e a b p. Inr \<lparr> passed = True, issues = [], result_confidence = 1 \<rparr>) \<rparr>
       ''{}'' ''{}'' ''data.json'' Strict 0)"
proof -
  let ?env = "\<lparr> jsonParseError = (\<lambda>text. None),
         importsValidator = (\<lambda>e a b p. Inr \<lparr> passed = True, issues = [], result_confidence = 1 \<rparr>),
         styleValidator = (\<lambda>a b p. Inr \<lparr> passed = True, issues = [], result_confidence = 1 \<rparr>),
         typescriptValidator = (\<lambda>a b p. Inr \<lparr> passed = True, issues = [], result_confidence = 1 \<rparr>),
         javascriptValidator = (\<lambda>a b p. Inr \<lparr> passed = True, issues = [], result_confidence = 1 \<rparr>),
         securityValidator = (\<lambda>a b p. Inr \<lparr> passed = True, issues = [], result_confidence = 1 \<rparr>),
         performanceValidator = (\<lambda>a b p. Inr \<lparr> passed = True, issues = [], result_confidence = 1 \<rparr>),
         accessibilityValidator = (\<lambda>e a b p. Inr \<lparr> passed = True, issues = [], result_confidence = 1 \<rparr>) \<rparr>"
  have b: "balanced ''f(x) { return [x]; }''" by (simp add: balanced_def countCharacter_def)
  have e: "toLowerCase (extname ''notes.txt'') = ''.txt''"
    by (simp add: extname_def basename_def toLowerCase_def lower_char_def upperChars_def
        lowerChars_def)
  have n: "toLowerCase (extname ''notes.txt'')
             \<notin> set [''.json'', ''.js'', ''.jsx'', ''.ts'', ''.tsx'', ''.py'']"
    unfolding e by simp
  have t: "trim ''f(x) { return [x]; }'' \<noteq> []" by (simp add: trim_def isSpace_def)
  from validateEdit_identical_content [OF b, of ?env "''notes.txt''" Enhanced 0] n t
  have s1: "structureIntact (validateEdit ?env ''f(x) { return [x]; }'' ''f(x) { return [x]; }''
          ''notes.txt'' Enhanced 0)"
    and s2: "syntaxValid (validateEdit ?env ''f(x) { return [x]; }'' ''f(x) { return [x]; }''
          ''notes.txt'' Enhanced 0)"
    by simp_all
  have b': "balanced ''{}''" by (simp add: balanced_def countCharacter_def)
  have j: "toLowerCase (extname ''data.json'') = ''.json''"
    by (simp add: extname_def basename_def toLowerCase_def lower_char_def upperChars_def
        lowerChars_def)
  from validateEdit_identical_content [OF b', of ?env "''data.json''" Strict 0] j
  have s3: "syntaxValid (validateEdit ?env ''{}'' ''{}'' ''data.json'' Strict 0)"
    by simp
  from b n s1 s2 b' j s3 show ?thesis by blast
qed

section \<open>Properties of the cycle detection\<close>

subsection \<open>An acyclic graph has no reported cycle\<close>






subsection \<open>A cycle of two files is reported\<close>



















end
